theory Spec2Isabelle
  imports Main
begin

section \<open>Persisted schema (src/database.js, createTables)\<close>

text \<open>
  Each table is a list of rows in table order. Timestamps are milliseconds since the
  epoch, as JavaScript's \<open>Date\<close> has them. Columns that the code always fills are
  modelled as plain values; \<open>company_name\<close> and \<open>stripe_customer_id\<close>, which the
  code leaves NULL, are options. A SERIAL \<open>id\<close> is kept for the tables whose rows the
  code addresses by id (users, integrations, alerts), together with its sequence. The
  store is taken to answer every query: connection failures and column-length
  overflows are outside the model. All statements of one request read the same clock
  value \<open>now\<close>, for \<open>new Date()\<close> and for \<open>CURRENT_TIMESTAMP\<close> alike.
\<close>

record user_row =
  u_id :: int
  u_email :: string
  u_password_hash :: string
  u_name :: string
  u_company_name :: "string option"
  u_subscription_status :: string
  u_stripe_customer_id :: "string option"
  u_created_at :: int
  u_updated_at :: int

record subscription_row =
  sub_user_id :: int
  sub_stripe_subscription_id :: string
  sub_status :: string
  sub_plan_type :: string
  sub_current_period_start :: int
  sub_current_period_end :: int
  sub_cancel_at_period_end :: bool
  sub_created_at :: int
  sub_updated_at :: int

record integration_row =
  int_id :: int
  int_user_id :: int
  int_integration_type :: string
  int_integration_name :: string
  int_is_active :: bool
  int_created_at :: int
  int_updated_at :: int

record dashboard_data_row =
  dd_user_id :: int
  dd_integration_id :: int
  dd_data_type :: string
  dd_created_at :: int

datatype severity = info | success | warning | error

text \<open>The alert titles the code writes (accents dropped in the names).\<close>

datatype alert_title =
    Bienvenido_a_BizlyticsApp
  | Suscripcion_Actualizada
  | Suscripcion_Programada_para_Cancelacion
  | Suscripcion_Reactivada
  | Suscripcion_Cancelada
  | Pago_Procesado_Exitosamente
  | Problema_con_el_Pago
  | Tu_Prueba_Gratuita_Termina_Pronto
  | Sincronizacion_Manual

text \<open>The \<open>data\<close> payload of an alert, one shape per emitter. Amounts are kept in
  cents (the code stores \<open>amount / 100\<close>). The message text is a function of the
  title and the payload and is not stored again.\<close>

datatype alert_data =
    Created_data string "string option"
  | Updated_data string string
  | Canceled_data string
  | Payment_data string int string
  | Trial_data string int
  | Manual_data

record alert_row =
  al_id :: int
  al_user_id :: int
  al_alert_type :: string
  al_title :: alert_title
  al_severity :: severity
  al_data :: alert_data
  al_is_read :: bool
  al_created_at :: int

record session_row =
  sess_user_id :: int
  sess_session_token :: string
  sess_expires_at :: int
  sess_created_at :: int

record db =
  users :: "user_row list"
  subscriptions :: "subscription_row list"
  integrations :: "integration_row list"
  dashboard_data :: "dashboard_data_row list"
  alerts :: "alert_row list"
  sessions :: "session_row list"
  users_seq :: int
  integrations_seq :: int
  alerts_seq :: int

text \<open>\<open>UPDATE table SET ... WHERE cond\<close>: every row that satisfies the condition gets
  the assignment, the others and the order stay.\<close>

definition update_where :: "('a \<Rightarrow> bool) \<Rightarrow> ('a \<Rightarrow> 'a) \<Rightarrow> 'a list \<Rightarrow> 'a list" where
  "update_where cond assign rows = map (\<lambda>r. if cond r then assign r else r) rows"

section \<open>Session Guard (requireAuth middleware)\<close>

text \<open>
  The four response bodies of \<open>requireAuth\<close>, all sent with status 401:
  "Token requerido", "Token invalido", "Sesion invalida" and "Sesion expirada"
  (accented in the source).
\<close>

datatype auth_error = Token_requerido | Token_invalido | Sesion_invalida | Sesion_expirada

text \<open>JavaScript's \<open>String.prototype.replace\<close> with a string pattern: the first
  occurrence only.\<close>

fun replace_first :: "string \<Rightarrow> string \<Rightarrow> string \<Rightarrow> string" where
  "replace_first pat rep [] = (if pat = [] then rep else [])"
| "replace_first pat rep (c # cs) =
     (if take (length pat) (c # cs) = pat then rep @ drop (length pat) (c # cs)
      else c # replace_first pat rep cs)"

text \<open>\<open>req.headers.authorization?.replace('Bearer ', '')\<close>\<close>

definition bearer_token :: "string option \<Rightarrow> string option" where
  "bearer_token authorization = map_option (replace_first ''Bearer '' '''') authorization"

text \<open>\<open>SELECT user_id, expires_at FROM sessions WHERE session_token = $1 AND user_id = $2\<close>\<close>

definition select_session :: "string \<Rightarrow> int \<Rightarrow> db \<Rightarrow> session_row list" where
  "select_session token uid s =
     filter (\<lambda>r. sess_session_token r = token \<and> sess_user_id r = uid) (sessions s)"

text \<open>\<open>DELETE FROM sessions WHERE session_token = $1\<close>\<close>

definition delete_session :: "string \<Rightarrow> db \<Rightarrow> db" where
  "delete_session token s =
     s\<lparr>sessions := filter (\<lambda>r. sess_session_token r \<noteq> token) (sessions s)\<rparr>"

text \<open>
  \<open>jwt_verify\<close> stands for \<open>jwt.verify(token, secret)\<close> of the jsonwebtoken library:
  \<open>None\<close> when it throws, otherwise the \<open>userId\<close> of the decoded payload. \<open>now\<close>
  is the value of \<open>new Date()\<close>. The result is the response (\<open>Inl\<close>, status 401) or
  the \<open>req.userId\<close> handed to the next handler (\<open>Inr\<close>), with the store afterwards.
\<close>

definition requireAuth ::
  "(string \<Rightarrow> int option) \<Rightarrow> int \<Rightarrow> string option \<Rightarrow> db \<Rightarrow> (auth_error + int) \<times> db" where
  "requireAuth jwt_verify now authorization s =
     (case bearer_token authorization of
        None \<Rightarrow> (Inl Token_requerido, s)
      | Some token \<Rightarrow>
          if token = [] then (Inl Token_requerido, s)
          else (case jwt_verify token of
                  None \<Rightarrow> (Inl Token_invalido, s)
                | Some userId \<Rightarrow>
                    (case select_session token userId s of
                       [] \<Rightarrow> (Inl Sesion_invalida, s)
                     | session # _ \<Rightarrow>
                         if now > sess_expires_at session
                         then (Inl Sesion_expirada, delete_session token s)
                         else (Inr userId, s))))"

text \<open>
  \<open>GET /api/auth/me\<close> (src/routes/auth.js) repeats the guard inline, with the bodies
  "Token no proporcionado", "Token invalido", "Sesion no encontrada", "Sesion expirada"
  (status 401) and "Usuario no encontrado" (status 404), and answers with the user row.
\<close>

datatype me_body =
    Token_no_proporcionado
  | Me_Token_invalido
  | Sesion_no_encontrada
  | Me_Sesion_expirada
  | Usuario_no_encontrado
  | Me_user user_row

definition get_me ::
  "(string \<Rightarrow> int option) \<Rightarrow> int \<Rightarrow> string option \<Rightarrow> db \<Rightarrow> (nat \<times> me_body) \<times> db" where
  "get_me jwt_verify now authorization s =
     (case bearer_token authorization of
        None \<Rightarrow> ((401, Token_no_proporcionado), s)
      | Some token \<Rightarrow>
          if token = [] then ((401, Token_no_proporcionado), s)
          else (case jwt_verify token of
                  None \<Rightarrow> ((401, Me_Token_invalido), s)
                | Some userId \<Rightarrow>
                    (case select_session token userId s of
                       [] \<Rightarrow> ((401, Sesion_no_encontrada), s)
                     | session # _ \<Rightarrow>
                         if now > sess_expires_at session
                         then ((401, Me_Sesion_expirada), delete_session token s)
                         else (case filter (\<lambda>u. u_id u = userId) (users s) of
                                 [] \<Rightarrow> ((404, Usuario_no_encontrado), s)
                               | user # _ \<Rightarrow> ((200, Me_user user), s)))))"

text \<open>The UNIQUE constraint on \<open>sessions.session_token\<close>.\<close>

definition unique_session_tokens :: "db \<Rightarrow> bool" where
  "unique_session_tokens s = distinct (map sess_session_token (sessions s))"

subsection \<open>The tokens the program issues\<close>

text \<open>
  The claims that \<open>generateToken\<close> puts into a token: \<open>jwt.sign({ userId }, secret,
  { expiresIn: '30d' })\<close> adds the issue time \<open>iat\<close> and the expiry \<open>exp\<close>, both in
  whole seconds. A token signed with the same secret by other means may lack \<open>exp\<close>.
\<close>

record jwt_payload =
  jp_userId :: int
  jp_iat :: int
  jp_exp :: "int option"

text \<open>
  \<open>jwt.verify(token, secret)\<close> of jsonwebtoken at the clock value \<open>now\<close>
  (milliseconds). \<open>decode\<close> stands for the check of the signature and the decoding of
  the payload, \<open>None\<close> for a malformed token or a wrong signature. The library
  refuses an empty token, and refuses a payload with \<open>exp\<close> as soon as
  \<open>Math.floor(now / 1000) >= exp\<close>. The result is the \<open>userId\<close> the route reads from
  the decoded payload.
\<close>

definition jwt_verify_at :: "(string \<Rightarrow> jwt_payload option) \<Rightarrow> int \<Rightarrow> string \<Rightarrow> int option" where
  "jwt_verify_at decode now token =
     (if token = [] then None
      else (case decode token of
              None \<Rightarrow> None
            | Some payload \<Rightarrow>
                (case jp_exp payload of
                   None \<Rightarrow> Some (jp_userId payload)
                 | Some expiry \<Rightarrow>
                     if now div 1000 \<ge> expiry then None else Some (jp_userId payload))))"

text \<open>\<open>generateToken\<close> (src/routes/auth.js); \<open>sign\<close> stands for the encoding and
  signing of a payload.\<close>

definition generateToken :: "(jwt_payload \<Rightarrow> string) \<Rightarrow> int \<Rightarrow> int \<Rightarrow> string" where
  "generateToken sign now userId =
     sign \<lparr>jp_userId = userId, jp_iat = now div 1000,
           jp_exp = Some (now div 1000 + 30 * 24 * 60 * 60)\<rparr>"

text \<open>
  What login and registration establish for the row they insert, and what every
  operation keeps: the token of each session row is non-empty and decodes to a payload
  of the row's owner whose expiry, in milliseconds, is not later than the row's
  \<open>expires_at\<close> (the row gets \<open>Date.now() + 30 days\<close> after the token was signed).
\<close>

definition sessions_issued :: "(string \<Rightarrow> jwt_payload option) \<Rightarrow> db \<Rightarrow> bool" where
  "sessions_issued decode s =
     (\<forall>r \<in> set (sessions s).
        sess_session_token r \<noteq> []
        \<and> (case decode (sess_session_token r) of
             None \<Rightarrow> False
           | Some payload \<Rightarrow>
               jp_userId payload = sess_user_id r
               \<and> (case jp_exp payload of
                    None \<Rightarrow> False
                  | Some expiry \<Rightarrow> expiry * 1000 \<le> sess_expires_at r)))"

section \<open>Billing Event Reconciler (src/routes/webhooks.js)\<close>

text \<open>The \<open>data.object\<close> payloads of the Stripe events the switch dispatches on, with
  the fields the handlers read. Stripe's timestamps are seconds. The period fields and
  \<open>trial_end\<close> are optional: a subscription object need not carry them (recent
  versions of the Stripe API moved the period to the subscription items), and the code
  then computes with \<open>undefined\<close>. A field sent as \<open>null\<close> computes as the number
  0.\<close>

record subscription_object =
  so_id :: string
  so_customer :: string
  so_status :: string
  so_metadata_plan_type :: "string option"
  so_current_period_start :: "int option"
  so_current_period_end :: "int option"
  so_cancel_at_period_end :: bool
  so_trial_end :: "int option"

record invoice_object =
  inv_id :: string
  inv_customer :: string
  inv_amount_paid :: int
  inv_amount_due :: int
  inv_currency :: string

record customer_object =
  cus_id :: string
  cus_email :: "string option"

text \<open>An event by its \<open>type\<close>: \<open>customer.subscription.created\<close>, \<open>.updated\<close>,
  \<open>.deleted\<close>, \<open>invoice.payment_succeeded\<close>, \<open>invoice.payment_failed\<close>,
  \<open>customer.subscription.trial_will_end\<close>, \<open>customer.created\<close>; \<open>Other_event\<close>
  carries the type string of an event of any other kind, for which the switch takes
  its default branch.\<close>

datatype stripe_event =
    Customer_subscription_created subscription_object
  | Customer_subscription_updated subscription_object
  | Customer_subscription_deleted subscription_object
  | Invoice_payment_succeeded invoice_object
  | Invoice_payment_failed invoice_object
  | Customer_subscription_trial_will_end subscription_object
  | Customer_created customer_object
  | Other_event string

text \<open>The process environment the webhook route reads.\<close>

record env =
  STRIPE_WEBHOOK_SECRET :: "string option"
  STRIPE_SECRET_KEY :: "string option"

text \<open>JavaScript truthiness of an environment variable or optional string: unset and
  the empty string are both falsy.\<close>

definition truthy :: "string option \<Rightarrow> bool" where
  "truthy v = (case v of None \<Rightarrow> False | Some x \<Rightarrow> x \<noteq> [])"

text \<open>\<open>a || b\<close> on an optional string.\<close>

definition js_or :: "string option \<Rightarrow> string \<Rightarrow> string" where
  "js_or a b = (case a of None \<Rightarrow> b | Some x \<Rightarrow> if x = [] then b else x)"

record webhook_request =
  stripe_signature :: "string option"
  body :: string

text \<open>What \<open>verifyStripeWebhook\<close> returns: \<open>true\<close>, the constructed event, or
  \<open>false\<close>.\<close>

datatype verify_result = Dev_true | Verified stripe_event | Verify_false

text \<open>\<open>constructEvent\<close> stands for \<open>stripe.webhooks.constructEvent(body, sig, secret)\<close>:
  \<open>None\<close> when it throws.\<close>

definition verifyStripeWebhook ::
  "(string \<Rightarrow> string option \<Rightarrow> string \<Rightarrow> stripe_event option) \<Rightarrow> env \<Rightarrow> webhook_request
     \<Rightarrow> verify_result" where
  "verifyStripeWebhook constructEvent e req =
     (case STRIPE_WEBHOOK_SECRET e of
        None \<Rightarrow> Dev_true
      | Some endpointSecret \<Rightarrow>
          if endpointSecret = [] then Dev_true
          else (case constructEvent (body req) (stripe_signature req) endpointSecret of
                  Some event \<Rightarrow> Verified event
                | None \<Rightarrow> Verify_false))"

text \<open>\<open>createUserAlert\<close>: one INSERT into alerts, its error swallowed. The insert fails
  on the foreign key when no user has the id; the sequence value is consumed either
  way.\<close>

definition createUserAlert ::
  "int \<Rightarrow> int \<Rightarrow> string \<Rightarrow> alert_title \<Rightarrow> severity \<Rightarrow> alert_data \<Rightarrow> db \<Rightarrow> db" where
  "createUserAlert now userId type title sev dat s =
     (if \<exists>u \<in> set (users s). u_id u = userId
      then s\<lparr>alerts := alerts s @
                [\<lparr>al_id = alerts_seq s, al_user_id = userId, al_alert_type = type,
                  al_title = title, al_severity = sev, al_data = dat, al_is_read = False,
                  al_created_at = now\<rparr>],
              alerts_seq := alerts_seq s + 1\<rparr>
      else s\<lparr>alerts_seq := alerts_seq s + 1\<rparr>)"

text \<open>\<open>getUserByStripeCustomer\<close>:
  \<open>SELECT id, email, name FROM users WHERE stripe_customer_id = $1\<close>, first row or
  null. The column is not unique and the query has no ORDER BY: when several users
  carry the reference the database may return any of them, and a different one after
  an update. The model returns the first in table order; the properties below that
  depend on the user found are stated for a reference that exactly one user carries.\<close>

definition getUserByStripeCustomer :: "string \<Rightarrow> db \<Rightarrow> user_row option" where
  "getUserByStripeCustomer stripeCustomerId s =
     (case filter (\<lambda>u. u_stripe_customer_id u = Some stripeCustomerId) (users s) of
        [] \<Rightarrow> None
      | u # _ \<Rightarrow> Some u)"

text \<open>\<open>UPDATE users SET subscription_status = $1 WHERE id = $2\<close>\<close>

definition update_user_status :: "string \<Rightarrow> int \<Rightarrow> db \<Rightarrow> db" where
  "update_user_status st uid s =
     s\<lparr>users := update_where (\<lambda>u. u_id u = uid) (u_subscription_status_update (\<lambda>_. st))
                    (users s)\<rparr>"

text \<open>
  \<open>new Date(seconds * 1000)\<close>. The result is an Invalid Date (\<open>None\<close>) when the field
  is missing, since \<open>undefined * 1000\<close> is NaN, and when the time value leaves the range
  of \<open>Date\<close>, 8.64e15 milliseconds to either side of the epoch.
\<close>

definition js_date :: "int option \<Rightarrow> int option" where
  "js_date seconds =
     (case seconds of
        None \<Rightarrow> None
      | Some x \<Rightarrow>
          if - 8640000000000000 \<le> x * 1000 \<and> x * 1000 \<le> 8640000000000000
          then Some (x * 1000) else None)"

text \<open>
  A \<open>Date\<close> passed as a parameter of a statement, for a \<open>TIMESTAMP WITH TIME ZONE\<close>
  column. The database rejects the statement (\<open>None\<close>), whether or not a row matches,
  when the date is invalid and when it lies before the earliest timestamp of
  PostgreSQL, 24 November 4714 BC; the latest one is beyond the range of \<open>Date\<close>. The
  \<open>query\<close> then throws, and in the handlers the surrounding
  \<open>try { ... } catch\<close> logs the error and returns.
\<close>

definition date_param :: "int option \<Rightarrow> int option" where
  "date_param seconds =
     (case js_date seconds of
        None \<Rightarrow> None
      | Some ms \<Rightarrow> if - 210866803200000 \<le> ms then Some ms else None)"

text \<open>The upsert of \<open>handleSubscriptionCreated\<close>:
  \<open>INSERT INTO subscriptions (...) VALUES (...) ON CONFLICT (stripe_subscription_id) DO
  UPDATE SET status = EXCLUDED.status, current_period_start = ..., current_period_end =
  ..., cancel_at_period_end = ..., updated_at = CURRENT_TIMESTAMP\<close>. The owner, the plan
  type and the creation time of an existing row are kept.\<close>

definition do_update_set :: "int \<Rightarrow> subscription_row \<Rightarrow> subscription_row \<Rightarrow> subscription_row" where
  "do_update_set now excluded r =
     r\<lparr>sub_status := sub_status excluded,
       sub_current_period_start := sub_current_period_start excluded,
       sub_current_period_end := sub_current_period_end excluded,
       sub_cancel_at_period_end := sub_cancel_at_period_end excluded,
       sub_updated_at := now\<rparr>"

definition upsert_subscription :: "int \<Rightarrow> subscription_row \<Rightarrow> db \<Rightarrow> db" where
  "upsert_subscription now new s =
     (if \<exists>r \<in> set (subscriptions s).
           sub_stripe_subscription_id r = sub_stripe_subscription_id new
      then s\<lparr>subscriptions :=
               update_where (\<lambda>r. sub_stripe_subscription_id r = sub_stripe_subscription_id new)
                 (do_update_set now new) (subscriptions s)\<rparr>
      else s\<lparr>subscriptions := subscriptions s @ [new]\<rparr>)"

definition handleSubscriptionCreated :: "int \<Rightarrow> subscription_object \<Rightarrow> db \<Rightarrow> db" where
  "handleSubscriptionCreated now subscription s =
     (case getUserByStripeCustomer (so_customer subscription) s of
        None \<Rightarrow> s
      | Some user \<Rightarrow>
          (case (date_param (so_current_period_start subscription),
                 date_param (so_current_period_end subscription)) of
             (Some period_start, Some period_end) \<Rightarrow>
               createUserAlert now (u_id user) ''subscription_created'' Bienvenido_a_BizlyticsApp
                 success (Created_data (so_id subscription) (so_metadata_plan_type subscription))
                 (update_user_status (so_status subscription) (u_id user)
                   (upsert_subscription now
                      \<lparr>sub_user_id = u_id user,
                       sub_stripe_subscription_id = so_id subscription,
                       sub_status = so_status subscription,
                       sub_plan_type = js_or (so_metadata_plan_type subscription) ''pro'',
                       sub_current_period_start = period_start,
                       sub_current_period_end = period_end,
                       sub_cancel_at_period_end = so_cancel_at_period_end subscription,
                       sub_created_at = now,
                       sub_updated_at = now\<rparr> s))
           | _ \<Rightarrow> s))"

text \<open>\<open>UPDATE subscriptions SET status, current_period_start, current_period_end,
  cancel_at_period_end, updated_at WHERE stripe_subscription_id = $5\<close>\<close>

definition update_subscription :: "int \<Rightarrow> subscription_object \<Rightarrow> int \<Rightarrow> int \<Rightarrow> db \<Rightarrow> db" where
  "update_subscription now subscription period_start period_end s =
     s\<lparr>subscriptions :=
         update_where (\<lambda>r. sub_stripe_subscription_id r = so_id subscription)
           (\<lambda>r. r\<lparr>sub_status := so_status subscription,
                   sub_current_period_start := period_start,
                   sub_current_period_end := period_end,
                   sub_cancel_at_period_end := so_cancel_at_period_end subscription,
                   sub_updated_at := now\<rparr>)
           (subscriptions s)\<rparr>"

definition handleSubscriptionUpdated :: "int \<Rightarrow> subscription_object \<Rightarrow> db \<Rightarrow> db" where
  "handleSubscriptionUpdated now subscription s =
     (case getUserByStripeCustomer (so_customer subscription) s of
        None \<Rightarrow> s
      | Some user \<Rightarrow>
          (case (date_param (so_current_period_start subscription),
                 date_param (so_current_period_end subscription)) of
             (Some period_start, Some period_end) \<Rightarrow>
               (let (alertTitle, alertSeverity) =
                      (if so_cancel_at_period_end subscription
                       then (Suscripcion_Programada_para_Cancelacion, warning)
                       else if so_status subscription = ''active''
                       then (Suscripcion_Reactivada, success)
                       else (Suscripcion_Actualizada, info))
                in createUserAlert now (u_id user) ''subscription_updated'' alertTitle
                     alertSeverity (Updated_data (so_id subscription) (so_status subscription))
                     (update_user_status (so_status subscription) (u_id user)
                       (update_subscription now subscription period_start period_end s)))
           | _ \<Rightarrow> s))"

text \<open>\<open>UPDATE subscriptions SET status = 'canceled', updated_at = CURRENT_TIMESTAMP WHERE
  stripe_subscription_id = $1\<close>\<close>

definition cancel_subscription :: "int \<Rightarrow> string \<Rightarrow> db \<Rightarrow> db" where
  "cancel_subscription now sid s =
     s\<lparr>subscriptions :=
         update_where (\<lambda>r. sub_stripe_subscription_id r = sid)
           (\<lambda>r. r\<lparr>sub_status := ''canceled'', sub_updated_at := now\<rparr>)
           (subscriptions s)\<rparr>"

text \<open>\<open>UPDATE integrations SET is_active = false WHERE user_id = $1 AND integration_type
  IN ('google_analytics', 'gmail')\<close>\<close>

definition deactivate_premium_integrations :: "int \<Rightarrow> db \<Rightarrow> db" where
  "deactivate_premium_integrations uid s =
     s\<lparr>integrations :=
         update_where (\<lambda>i. int_user_id i = uid
                            \<and> int_integration_type i \<in> {''google_analytics'', ''gmail''})
           (int_is_active_update (\<lambda>_. False))
           (integrations s)\<rparr>"

definition handleSubscriptionDeleted :: "int \<Rightarrow> subscription_object \<Rightarrow> db \<Rightarrow> db" where
  "handleSubscriptionDeleted now subscription s =
     (case getUserByStripeCustomer (so_customer subscription) s of
        None \<Rightarrow> s
      | Some user \<Rightarrow>
          createUserAlert now (u_id user) ''subscription_canceled'' Suscripcion_Cancelada
            warning (Canceled_data (so_id subscription))
            (deactivate_premium_integrations (u_id user)
              (update_user_status ''free'' (u_id user)
                (cancel_subscription now (so_id subscription) s))))"

definition handlePaymentSucceeded :: "int \<Rightarrow> invoice_object \<Rightarrow> db \<Rightarrow> db" where
  "handlePaymentSucceeded now invoice s =
     (case getUserByStripeCustomer (inv_customer invoice) s of
        None \<Rightarrow> s
      | Some user \<Rightarrow>
          createUserAlert now (u_id user) ''payment_succeeded'' Pago_Procesado_Exitosamente
            success (Payment_data (inv_id invoice) (inv_amount_paid invoice) (inv_currency invoice))
            s)"

definition handlePaymentFailed :: "int \<Rightarrow> invoice_object \<Rightarrow> db \<Rightarrow> db" where
  "handlePaymentFailed now invoice s =
     (case getUserByStripeCustomer (inv_customer invoice) s of
        None \<Rightarrow> s
      | Some user \<Rightarrow>
          createUserAlert now (u_id user) ''payment_failed'' Problema_con_el_Pago
            error (Payment_data (inv_id invoice) (inv_amount_due invoice) (inv_currency invoice))
            s)"

text \<open>\<open>handleTrialWillEnd\<close> puts \<open>trialEndDate.toISOString()\<close> into the alert, which
  throws a RangeError on an Invalid Date; the handler's catch then returns without an
  alert.\<close>

definition handleTrialWillEnd :: "int \<Rightarrow> subscription_object \<Rightarrow> db \<Rightarrow> db" where
  "handleTrialWillEnd now subscription s =
     (case getUserByStripeCustomer (so_customer subscription) s of
        None \<Rightarrow> s
      | Some user \<Rightarrow>
          (case js_date (so_trial_end subscription) of
             None \<Rightarrow> s
           | Some trialEndDate \<Rightarrow>
               createUserAlert now (u_id user) ''trial_ending'' Tu_Prueba_Gratuita_Termina_Pronto
                 warning (Trial_data (so_id subscription) trialEndDate) s))"

text \<open>\<open>handleCustomerCreated\<close>: when the customer has an email,
  \<open>SELECT id FROM users WHERE email = $1 AND stripe_customer_id IS NULL\<close>, and for the
  first row \<open>UPDATE users SET stripe_customer_id = $1 WHERE id = $2\<close>.\<close>

definition handleCustomerCreated :: "customer_object \<Rightarrow> db \<Rightarrow> db" where
  "handleCustomerCreated customer s =
     (case cus_email customer of
        None \<Rightarrow> s
      | Some email \<Rightarrow>
          if email = [] then s
          else (case filter (\<lambda>u. u_email u = email \<and> u_stripe_customer_id u = None) (users s) of
                  [] \<Rightarrow> s
                | row # _ \<Rightarrow>
                    s\<lparr>users := update_where (\<lambda>u. u_id u = u_id row)
                                  (u_stripe_customer_id_update (\<lambda>_. Some (cus_id customer)))
                                  (users s)\<rparr>))"

text \<open>The switch of the route on \<open>event.type\<close>.\<close>

fun dispatch_event :: "int \<Rightarrow> stripe_event \<Rightarrow> db \<Rightarrow> db" where
  "dispatch_event now (Customer_subscription_created obj) s = handleSubscriptionCreated now obj s"
| "dispatch_event now (Customer_subscription_updated obj) s = handleSubscriptionUpdated now obj s"
| "dispatch_event now (Customer_subscription_deleted obj) s = handleSubscriptionDeleted now obj s"
| "dispatch_event now (Invoice_payment_succeeded obj) s = handlePaymentSucceeded now obj s"
| "dispatch_event now (Invoice_payment_failed obj) s = handlePaymentFailed now obj s"
| "dispatch_event now (Customer_subscription_trial_will_end obj) s = handleTrialWillEnd now obj s"
| "dispatch_event now (Customer_created obj) s = handleCustomerCreated obj s"
| "dispatch_event now (Other_event ty) s = s"

text \<open>The response bodies of \<open>POST /api/webhooks/stripe\<close>:
  \<open>{error: 'Webhook verification failed'}\<close>, \<open>{received: true, mode: 'development'}\<close>
  and \<open>{received: true}\<close>.\<close>

datatype webhook_body = Webhook_verification_failed | Received_development | Received

text \<open>\<open>POST /api/webhooks/stripe\<close>: HTTP status, body and the store afterwards. When
  \<open>verifyStripeWebhook\<close> returned \<open>true\<close>, \<open>event.type\<close> is undefined and the switch
  takes its default branch.\<close>

definition post_stripe ::
  "(string \<Rightarrow> string option \<Rightarrow> string \<Rightarrow> stripe_event option) \<Rightarrow> env \<Rightarrow> int \<Rightarrow> webhook_request
     \<Rightarrow> db \<Rightarrow> (nat \<times> webhook_body) \<times> db" where
  "post_stripe constructEvent e now req s =
     (case verifyStripeWebhook constructEvent e req of
        Verify_false \<Rightarrow> ((400, Webhook_verification_failed), s)
      | Dev_true \<Rightarrow>
          if \<not> truthy (STRIPE_SECRET_KEY e) then ((200, Received_development), s)
          else ((200, Received), s)
      | Verified event \<Rightarrow>
          if \<not> truthy (STRIPE_SECRET_KEY e) then ((200, Received_development), s)
          else ((200, Received), dispatch_event now event s))"


text \<open>The billing customer reference an event carries: the \<open>customer\<close> field of a
  subscription or invoice, the \<open>id\<close> of a customer object.\<close>

fun event_customer :: "stripe_event \<Rightarrow> string option" where
  "event_customer (Customer_subscription_created obj) = Some (so_customer obj)"
| "event_customer (Customer_subscription_updated obj) = Some (so_customer obj)"
| "event_customer (Customer_subscription_deleted obj) = Some (so_customer obj)"
| "event_customer (Invoice_payment_succeeded obj) = Some (inv_customer obj)"
| "event_customer (Invoice_payment_failed obj) = Some (inv_customer obj)"
| "event_customer (Customer_subscription_trial_will_end obj) = Some (so_customer obj)"
| "event_customer (Customer_created obj) = Some (cus_id obj)"
| "event_customer (Other_event ty) = None"

fun is_customer_created :: "stripe_event \<Rightarrow> bool" where
  "is_customer_created (Customer_created obj) = True"
| "is_customer_created ev = False"

text \<open>HTTP status classes.\<close>

definition is_success :: "nat \<Rightarrow> bool" where
  "is_success st = (200 \<le> st \<and> st < 300)"

definition is_server_error :: "nat \<Rightarrow> bool" where
  "is_server_error st = (500 \<le> st \<and> st < 600)"

section \<open>Entitlement read paths\<close>

text \<open>\<open>getUserStats\<close> (src/database.js). Its third query is
  \<open>SELECT plan_type, status FROM subscriptions WHERE user_id = $1 ORDER BY created_at DESC
  LIMIT 1\<close>: the rows of the user sorted by creation time, latest first, and the first
  of them. Among rows created at the same instant the database may return any; the
  model returns the one that comes first in table order.\<close>

definition latest_subscription :: "int \<Rightarrow> db \<Rightarrow> subscription_row option" where
  "latest_subscription userId s =
     (case sort_key (\<lambda>r. - sub_created_at r)
             (filter (\<lambda>r. sub_user_id r = userId) (subscriptions s)) of
        [] \<Rightarrow> None
      | r # _ \<Rightarrow> Some r)"

record user_stats =
  active_integrations :: nat
  unread_alerts :: nat
  subscription_plan :: string
  subscription_status :: string

definition getUserStats :: "int \<Rightarrow> db \<Rightarrow> user_stats" where
  "getUserStats userId s =
     \<lparr>active_integrations =
        length (filter (\<lambda>i. int_user_id i = userId \<and> int_is_active i) (integrations s)),
      unread_alerts =
        length (filter (\<lambda>a. al_user_id a = userId \<and> \<not> al_is_read a) (alerts s)),
      subscription_plan =
        js_or (map_option sub_plan_type (latest_subscription userId s)) ''free'',
      subscription_status =
        js_or (map_option sub_status (latest_subscription userId s)) ''inactive''\<rparr>"

text \<open>The first query of \<open>GET /api/dashboard/overview\<close> (and of \<open>/analytics\<close>):
  \<open>SELECT u.name, u.company_name, u.subscription_status, COALESCE(s.plan_type, 'free') as
  plan_type FROM users u LEFT JOIN subscriptions s ON u.id = s.user_id AND s.status =
  'active' WHERE u.id = $1\<close>. A user row is joined with each of its subscriptions whose
  status is \<open>active\<close>, or once with NULLs when it has none. The route takes the first
  row of the result and answers 404 when there is none; the model gives the
  \<open>plan_type\<close> of that first row.\<close>

definition overview_rows :: "int \<Rightarrow> db \<Rightarrow> (user_row \<times> string) list" where
  "overview_rows userId s =
     concat (map (\<lambda>u. case filter (\<lambda>r. sub_user_id r = u_id u \<and> sub_status r = ''active'')
                                 (subscriptions s) of
                         [] \<Rightarrow> [(u, ''free'')]
                       | rs \<Rightarrow> map (\<lambda>r. (u, sub_plan_type r)) rs)
                 (filter (\<lambda>u. u_id u = userId) (users s)))"

definition overview_plan_type :: "int \<Rightarrow> db \<Rightarrow> string option" where
  "overview_plan_type userId s =
     (case overview_rows userId s of [] \<Rightarrow> None | (u, plan) # _ \<Rightarrow> Some plan)"

section \<open>Every route as an operation on the store\<close>

text \<open>
  To follow one column through the whole system, each route of the five routers (and
  the maintenance function \<open>cleanupExpiredSessions\<close>) is given by its effect on the
  store: the SQL statements it executes, in order, under the checks that guard them.
  Statements run one by one without a transaction, so an exception thrown halfway
  leaves the earlier writes in place. Responses are left out here.

  The libraries are parameters: the decoding and the signing inside \<open>jwt.verify\<close>
  and \<open>jwt.sign\<close>, \<open>bcrypt.hash\<close> and \<open>bcrypt.compare\<close>, the regular expression
  test of \<open>isValidEmail\<close>, \<open>toLowerCase\<close> and \<open>trim\<close>, the integer input of the
  database, Stripe's \<open>webhooks.constructEvent\<close>, \<open>customers.create\<close>,
  \<open>subscriptions.create\<close>, \<open>subscriptions.update\<close> (with a new price, or with
  \<open>cancel_at_period_end\<close>) and \<open>subscriptions.cancel\<close>. A Stripe call that throws
  is \<open>None\<close>.
\<close>

record ext =
  x_jwt_decode :: "string \<Rightarrow> jwt_payload option"
  x_jwt_sign :: "jwt_payload \<Rightarrow> string"
  x_bcrypt_hash :: "string \<Rightarrow> string"
  x_bcrypt_compare :: "string \<Rightarrow> string \<Rightarrow> bool"
  x_emailRegex_test :: "string \<Rightarrow> bool"
  x_toLowerCase :: "string \<Rightarrow> string"
  x_trim :: "string \<Rightarrow> string"
  x_int4in :: "string \<Rightarrow> int option"
  x_constructEvent :: "string \<Rightarrow> string option \<Rightarrow> string \<Rightarrow> stripe_event option"
  x_customers_create :: "user_row \<Rightarrow> string option"
  x_subscriptions_create :: "string \<Rightarrow> string \<Rightarrow> subscription_object option"
  x_subscriptions_update_price :: "string \<Rightarrow> string \<Rightarrow> subscription_object option"
  x_subscriptions_update_cancel :: "string \<Rightarrow> bool \<Rightarrow> subscription_object option"
  x_subscriptions_cancel :: "string \<Rightarrow> subscription_object option"
  x_env :: env

text \<open>A route behind \<open>requireAuth\<close>: the handler runs with \<open>req.userId\<close> when the
  guard calls \<open>next()\<close>.\<close>

definition with_auth :: "ext \<Rightarrow> int \<Rightarrow> string option \<Rightarrow> (int \<Rightarrow> db \<Rightarrow> db) \<Rightarrow> db \<Rightarrow> db" where
  "with_auth x now authorization handler s =
     (case requireAuth (jwt_verify_at (x_jwt_decode x) now) now authorization s of
        (Inl err, s') \<Rightarrow> s'
      | (Inr userId, s') \<Rightarrow> handler userId s')"

subsection \<open>/api/auth\<close>

text \<open>\<open>INSERT INTO sessions (user_id, session_token, expires_at) VALUES ($1, $2, $3)\<close>
  with \<open>expiresAt = Date.now() + 30 * 24 * 60 * 60 * 1000\<close>. The insert throws when the
  token is already in the table (UNIQUE), and the handler's catch answers 500.\<close>

definition insert_session :: "int \<Rightarrow> int \<Rightarrow> string \<Rightarrow> db \<Rightarrow> db" where
  "insert_session now userId token s =
     (if \<exists>r \<in> set (sessions s). sess_session_token r = token then s
      else s\<lparr>sessions := sessions s @
                [\<lparr>sess_user_id = userId, sess_session_token = token,
                  sess_expires_at = now + 30 * 24 * 60 * 60 * 1000,
                  sess_created_at = now\<rparr>]\<rparr>)"

text \<open>\<open>POST /api/auth/register\<close>\<close>

definition post_register ::
  "ext \<Rightarrow> int \<Rightarrow> string option \<Rightarrow> string option \<Rightarrow> string option \<Rightarrow> string option
     \<Rightarrow> db \<Rightarrow> db" where
  "post_register x now email password name company_name s =
     (case (email, password, name) of
        (Some email', Some password', Some name') \<Rightarrow>
          if email' = [] \<or> password' = [] \<or> name' = [] then s
          else if \<not> x_emailRegex_test x email' then s
          else if length password' < 6 then s
          else if \<exists>u \<in> set (users s). u_email u = x_toLowerCase x email' then s
          else
            insert_session now (users_seq s) (generateToken (x_jwt_sign x) now (users_seq s))
              (s\<lparr>users := users s @
                   [\<lparr>u_id = users_seq s, u_email = x_toLowerCase x email',
                     u_password_hash = x_bcrypt_hash x password', u_name = name',
                     u_company_name = (if truthy company_name then company_name else None),
                     u_subscription_status = ''free'', u_stripe_customer_id = None,
                     u_created_at = now, u_updated_at = now\<rparr>],
                 users_seq := users_seq s + 1\<rparr>)
      | _ \<Rightarrow> s)"

text \<open>\<open>POST /api/auth/login\<close>\<close>

definition post_login :: "ext \<Rightarrow> int \<Rightarrow> string option \<Rightarrow> string option \<Rightarrow> db \<Rightarrow> db" where
  "post_login x now email password s =
     (case (email, password) of
        (Some email', Some password') \<Rightarrow>
          if email' = [] \<or> password' = [] then s
          else (case filter (\<lambda>u. u_email u = x_toLowerCase x email') (users s) of
                  [] \<Rightarrow> s
                | user # _ \<Rightarrow>
                    if \<not> x_bcrypt_compare x password' (u_password_hash user) then s
                    else insert_session now (u_id user)
                           (generateToken (x_jwt_sign x) now (u_id user)) s)
      | _ \<Rightarrow> s)"

text \<open>\<open>POST /api/auth/logout\<close>\<close>

definition post_logout :: "string option \<Rightarrow> db \<Rightarrow> db" where
  "post_logout authorization s =
     (case bearer_token authorization of
        None \<Rightarrow> s
      | Some token \<Rightarrow> if token = [] then s else delete_session token s)"

text \<open>\<open>POST /api/auth/change-password\<close>. The route verifies the token but does not
  look the session up.\<close>

definition post_change_password ::
  "ext \<Rightarrow> int \<Rightarrow> string option \<Rightarrow> string option \<Rightarrow> string option \<Rightarrow> db \<Rightarrow> db" where
  "post_change_password x now authorization currentPassword newPassword s =
     (case bearer_token authorization of
        None \<Rightarrow> s
      | Some token \<Rightarrow>
          if token = [] then s
          else (case (currentPassword, newPassword) of
                  (Some current, Some new) \<Rightarrow>
                    if current = [] \<or> new = [] then s
                    else if length new < 6 then s
                    else (case jwt_verify_at (x_jwt_decode x) now token of
                            None \<Rightarrow> s
                          | Some userId \<Rightarrow>
                              (case filter (\<lambda>u. u_id u = userId) (users s) of
                                 [] \<Rightarrow> s
                               | user # _ \<Rightarrow>
                                   if \<not> x_bcrypt_compare x current (u_password_hash user) then s
                                   else s\<lparr>users :=
                                          update_where (\<lambda>u. u_id u = userId)
                                            (\<lambda>u. u\<lparr>u_password_hash := x_bcrypt_hash x new,
                                                    u_updated_at := now\<rparr>)
                                            (users s)\<rparr>))
                | _ \<Rightarrow> s))"

subsection \<open>/api/users\<close>

text \<open>\<open>PUT /api/users/profile\<close>\<close>

definition put_profile :: "ext \<Rightarrow> int \<Rightarrow> string option \<Rightarrow> string option \<Rightarrow> int \<Rightarrow> db \<Rightarrow> db" where
  "put_profile x now name company_name userId s =
     (case name of
        None \<Rightarrow> s
      | Some name' \<Rightarrow>
          if name' = [] \<or> length (x_trim x name') = 0 then s
          else if length name' > 255 then s
          else if truthy company_name \<and> length (js_or company_name []) > 255 then s
          else s\<lparr>users :=
                 update_where (\<lambda>u. u_id u = userId)
                   (\<lambda>u. u\<lparr>u_name := x_trim x name',
                           u_company_name :=
                             (if truthy (map_option (x_trim x) company_name)
                              then map_option (x_trim x) company_name else None),
                           u_updated_at := now\<rparr>)
                   (users s)\<rparr>)"

text \<open>\<open>PUT /api/users/alerts/:id/read\<close>; the id is \<open>None\<close> when \<open>parseInt\<close> gives
  NaN.\<close>

definition put_alert_read :: "int option \<Rightarrow> int \<Rightarrow> db \<Rightarrow> db" where
  "put_alert_read alertId userId s =
     (case alertId of
        None \<Rightarrow> s
      | Some aid \<Rightarrow>
          s\<lparr>alerts := update_where (\<lambda>a. al_id a = aid \<and> al_user_id a = userId)
                          (al_is_read_update (\<lambda>_. True)) (alerts s)\<rparr>)"

text \<open>\<open>PUT /api/users/alerts/read-all\<close>\<close>

definition put_alerts_read_all :: "int \<Rightarrow> db \<Rightarrow> db" where
  "put_alerts_read_all userId s =
     s\<lparr>alerts := update_where (\<lambda>a. al_user_id a = userId \<and> \<not> al_is_read a)
                     (al_is_read_update (\<lambda>_. True)) (alerts s)\<rparr>"

text \<open>\<open>DELETE /api/users/alerts/:id\<close>\<close>

definition delete_alert :: "int option \<Rightarrow> int \<Rightarrow> db \<Rightarrow> db" where
  "delete_alert alertId userId s =
     (case alertId of
        None \<Rightarrow> s
      | Some aid \<Rightarrow>
          s\<lparr>alerts := filter (\<lambda>a. \<not> (al_id a = aid \<and> al_user_id a = userId)) (alerts s)\<rparr>)"

text \<open>\<open>DELETE FROM users WHERE id = $1\<close> with the ON DELETE CASCADE of the five
  referencing tables (dashboard data goes with its user and with its integration).\<close>

definition delete_user :: "int \<Rightarrow> db \<Rightarrow> db" where
  "delete_user userId s =
     s\<lparr>users := filter (\<lambda>u. u_id u \<noteq> userId) (users s),
       subscriptions := filter (\<lambda>r. sub_user_id r \<noteq> userId) (subscriptions s),
       integrations := filter (\<lambda>i. int_user_id i \<noteq> userId) (integrations s),
       dashboard_data :=
         filter (\<lambda>d. dd_user_id d \<noteq> userId
                     \<and> dd_integration_id d \<notin>
                         set (map int_id (filter (\<lambda>i. int_user_id i = userId) (integrations s))))
                (dashboard_data s),
       alerts := filter (\<lambda>a. al_user_id a \<noteq> userId) (alerts s),
       sessions := filter (\<lambda>r. sess_user_id r \<noteq> userId) (sessions s)\<rparr>"

text \<open>\<open>DELETE /api/users/account\<close>\<close>

definition delete_account :: "ext \<Rightarrow> string option \<Rightarrow> int \<Rightarrow> db \<Rightarrow> db" where
  "delete_account x password userId s =
     (case password of
        None \<Rightarrow> s
      | Some password' \<Rightarrow>
          if password' = [] then s
          else (case filter (\<lambda>u. u_id u = userId) (users s) of
                  [] \<Rightarrow> s
                | user # _ \<Rightarrow>
                    if \<not> x_bcrypt_compare x password' (u_password_hash user) then s
                    else delete_user userId s))"

subsection \<open>/api/integrations and /api/dashboard\<close>

text \<open>\<open>POST /api/integrations/stripe\<close>\<close>

definition post_integration_stripe :: "int \<Rightarrow> int \<Rightarrow> db \<Rightarrow> db" where
  "post_integration_stripe now userId s =
     (case filter (\<lambda>u. u_id u = userId) (users s) of
        [] \<Rightarrow> s
      | user # _ \<Rightarrow>
          if \<not> truthy (u_stripe_customer_id user) then s
          else (case filter (\<lambda>i. int_user_id i = userId \<and> int_integration_type i = ''stripe'')
                        (integrations s) of
                  existing # _ \<Rightarrow>
                    s\<lparr>integrations :=
                        update_where (\<lambda>i. int_id i = int_id existing)
                          (\<lambda>i. i\<lparr>int_is_active := True, int_updated_at := now\<rparr>)
                          (integrations s)\<rparr>
                | [] \<Rightarrow>
                    s\<lparr>integrations := integrations s @
                        [\<lparr>int_id = integrations_seq s, int_user_id = userId,
                          int_integration_type = ''stripe'',
                          int_integration_name = ''Stripe Payments'', int_is_active = True,
                          int_created_at = now, int_updated_at = now\<rparr>],
                      integrations_seq := integrations_seq s + 1\<rparr>))"

text \<open>\<open>POST /api/integrations/google-analytics\<close> and \<open>POST /api/integrations/gmail\<close>
  insert with \<open>ON CONFLICT (user_id, integration_type)\<close>. The schema of
  \<open>createTables\<close> declares no unique constraint on that pair, so the database rejects
  the statement and the catch block answers 500: the store is left as it is.\<close>

definition post_integration_oauth :: "int \<Rightarrow> db \<Rightarrow> db" where
  "post_integration_oauth userId s = s"

text \<open>\<open>PUT /api/integrations/:id\<close>. \<open>has_additional_data\<close> says whether the body
  defines \<open>additional_data\<close>, a column the model does not keep.\<close>

definition put_integration ::
  "int \<Rightarrow> int option \<Rightarrow> string option \<Rightarrow> bool option \<Rightarrow> bool \<Rightarrow> int \<Rightarrow> db \<Rightarrow> db" where
  "put_integration now integrationId integration_name is_active has_additional_data userId s =
     (case integrationId of
        None \<Rightarrow> s
      | Some iid \<Rightarrow>
          if \<not> (\<exists>i \<in> set (integrations s). int_id i = iid \<and> int_user_id i = userId) then s
          else if integration_name = None \<and> is_active = None \<and> \<not> has_additional_data then s
          else s\<lparr>integrations :=
                   update_where (\<lambda>i. int_id i = iid \<and> int_user_id i = userId)
                     (\<lambda>i. i\<lparr>int_integration_name :=
                               (case integration_name of None \<Rightarrow> int_integration_name i
                                | Some n \<Rightarrow> n),
                             int_is_active :=
                               (case is_active of None \<Rightarrow> int_is_active i | Some a \<Rightarrow> a),
                             int_updated_at := now\<rparr>)
                     (integrations s)\<rparr>)"

text \<open>\<open>DELETE /api/integrations/:id\<close>: the integration, then its dashboard data.\<close>

definition delete_integration :: "int option \<Rightarrow> int \<Rightarrow> db \<Rightarrow> db" where
  "delete_integration integrationId userId s =
     (case integrationId of
        None \<Rightarrow> s
      | Some iid \<Rightarrow>
          if \<not> (\<exists>i \<in> set (integrations s). int_id i = iid \<and> int_user_id i = userId) then s
          else s\<lparr>integrations :=
                   filter (\<lambda>i. \<not> (int_id i = iid \<and> int_user_id i = userId)) (integrations s),
                 dashboard_data :=
                   filter (\<lambda>d. dd_integration_id d \<noteq> iid) (dashboard_data s)\<rparr>)"

text \<open>\<open>INSERT INTO dashboard_data (user_id, integration_id, data_type, ...)\<close> with the
  data type \<open><integration_type>_sync\<close>.\<close>

definition insert_sync_data :: "int \<Rightarrow> int \<Rightarrow> integration_row \<Rightarrow> db \<Rightarrow> db" where
  "insert_sync_data now userId integration s =
     s\<lparr>dashboard_data := dashboard_data s @
         [\<lparr>dd_user_id = userId, dd_integration_id = int_id integration,
           dd_data_type = int_integration_type integration @ ''_sync'',
           dd_created_at = now\<rparr>]\<rparr>"

text \<open>\<open>POST /api/integrations/:id/sync\<close>\<close>

definition post_integration_sync :: "int \<Rightarrow> int option \<Rightarrow> int \<Rightarrow> db \<Rightarrow> db" where
  "post_integration_sync now integrationId userId s =
     (case integrationId of
        None \<Rightarrow> s
      | Some iid \<Rightarrow>
          (case filter (\<lambda>i. int_id i = iid \<and> int_user_id i = userId \<and> int_is_active i)
                  (integrations s) of
             [] \<Rightarrow> s
           | integration # _ \<Rightarrow>
               insert_sync_data now userId integration s))"

text \<open>\<open>POST /api/dashboard/sync\<close>: one insert for each active integration of the
  user, in the order of the query result.\<close>

definition post_dashboard_sync :: "int \<Rightarrow> int \<Rightarrow> db \<Rightarrow> db" where
  "post_dashboard_sync now userId s =
     fold (insert_sync_data now userId)
       (filter (\<lambda>i. int_user_id i = userId \<and> int_is_active i) (integrations s)) s"

subsection \<open>/api/subscriptions\<close>

text \<open>\<open>!PLANS[plan_type]\<close>: \<open>PLANS\<close> is an object literal with the keys \<open>pro\<close> and
  \<open>business\<close>, so the lookup is also truthy for the property names it inherits from
  \<open>Object.prototype\<close>.\<close>

definition plan_lookup_truthy :: "string \<Rightarrow> bool" where
  "plan_lookup_truthy plan_type =
     (plan_type \<in> {''pro'', ''business'', ''constructor'', ''toString'', ''toLocaleString'',
                    ''valueOf'', ''hasOwnProperty'', ''isPrototypeOf'', ''propertyIsEnumerable'',
                    ''__proto__'', ''__defineGetter__'', ''__defineSetter__'',
                    ''__lookupGetter__'', ''__lookupSetter__''})"

text \<open>For the inherited names the value found has no \<open>features\<close>, and
  \<open>plan.features.join(', ')\<close>, evaluated while the arguments of the Stripe call are
  built, throws a TypeError: only the two own keys get as far as Stripe.\<close>

definition own_plan :: "string \<Rightarrow> bool" where
  "own_plan plan_type = (plan_type \<in> {''pro'', ''business''})"

text \<open>\<open>POST /api/subscriptions/create\<close>. The plain INSERT into subscriptions throws
  when a period date is not accepted and when the billing subscription reference is
  already in the table.\<close>

definition post_subscription_create :: "ext \<Rightarrow> int \<Rightarrow> string option \<Rightarrow> int \<Rightarrow> db \<Rightarrow> db" where
  "post_subscription_create x now plan_type userId s =
     (case plan_type of
        None \<Rightarrow> s
      | Some plan \<Rightarrow>
          if \<not> plan_lookup_truthy plan then s
          else if \<not> truthy (STRIPE_SECRET_KEY (x_env x)) then s
          else (case filter (\<lambda>u. u_id u = userId) (users s) of
                  [] \<Rightarrow> s
                | user # _ \<Rightarrow>
                    (case (if truthy (u_stripe_customer_id user)
                           then Some (js_or (u_stripe_customer_id user) [], s)
                           else (case x_customers_create x user of
                                   None \<Rightarrow> None
                                 | Some customer \<Rightarrow>
                                     Some (customer,
                                           s\<lparr>users :=
                                               update_where (\<lambda>u. u_id u = u_id user)
                                                 (u_stripe_customer_id_update (\<lambda>_. Some customer))
                                                 (users s)\<rparr>))) of
                       None \<Rightarrow> s
                     | Some (stripeCustomerId, s1) \<Rightarrow>
                         if \<not> own_plan plan then s1
                         else
                         (case x_subscriptions_create x stripeCustomerId plan of
                            None \<Rightarrow> s1
                          | Some subscription \<Rightarrow>
                              (case (date_param (so_current_period_start subscription),
                                     date_param (so_current_period_end subscription)) of
                                 (Some period_start, Some period_end) \<Rightarrow>
                                   if \<exists>r \<in> set (subscriptions s1).
                                         sub_stripe_subscription_id r = so_id subscription
                                   then s1
                                   else update_user_status (so_status subscription) (u_id user)
                                          (s1\<lparr>subscriptions := subscriptions s1 @
                                               [\<lparr>sub_user_id = u_id user,
                                                 sub_stripe_subscription_id = so_id subscription,
                                                 sub_status = so_status subscription,
                                                 sub_plan_type = plan,
                                                 sub_current_period_start = period_start,
                                                 sub_current_period_end = period_end,
                                                 sub_cancel_at_period_end =
                                                   so_cancel_at_period_end subscription,
                                                 sub_created_at = now,
                                                 sub_updated_at = now\<rparr>]\<rparr>)
                               | _ \<Rightarrow> s1)))))"

text \<open>\<open>PUT /api/subscriptions/update\<close>\<close>

definition put_subscription_update :: "ext \<Rightarrow> int \<Rightarrow> string option \<Rightarrow> int \<Rightarrow> db \<Rightarrow> db" where
  "put_subscription_update x now plan_type userId s =
     (case plan_type of
        None \<Rightarrow> s
      | Some plan \<Rightarrow>
          if \<not> plan_lookup_truthy plan then s
          else if \<not> truthy (STRIPE_SECRET_KEY (x_env x)) then s
          else (case filter (\<lambda>r. sub_user_id r = userId \<and> sub_status r = ''active'')
                        (subscriptions s) of
                  [] \<Rightarrow> s
                | row # _ \<Rightarrow>
                    if \<not> own_plan plan then s
                    else
                    (case x_subscriptions_update_price x (sub_stripe_subscription_id row) plan of
                       None \<Rightarrow> s
                     | Some subscription \<Rightarrow>
                         s\<lparr>subscriptions :=
                             update_where
                               (\<lambda>r. sub_stripe_subscription_id r = sub_stripe_subscription_id row)
                               (\<lambda>r. r\<lparr>sub_plan_type := plan, sub_updated_at := now\<rparr>)
                               (subscriptions s)\<rparr>)))"

text \<open>\<open>DELETE /api/subscriptions/cancel\<close>\<close>

definition delete_subscription_cancel :: "ext \<Rightarrow> int \<Rightarrow> bool \<Rightarrow> int \<Rightarrow> db \<Rightarrow> db" where
  "delete_subscription_cancel x now immediate userId s =
     (if \<not> truthy (STRIPE_SECRET_KEY (x_env x)) then s
      else (case filter (\<lambda>r. sub_user_id r = userId
                              \<and> (sub_status r = ''active'' \<or> sub_status r = ''trialing''))
                    (subscriptions s) of
              [] \<Rightarrow> s
            | row # _ \<Rightarrow>
                (case (if immediate then x_subscriptions_cancel x (sub_stripe_subscription_id row)
                       else x_subscriptions_update_cancel x (sub_stripe_subscription_id row) True) of
                   None \<Rightarrow> s
                 | Some subscription \<Rightarrow>
                     (let s1 = s\<lparr>subscriptions :=
                                  update_where
                                    (\<lambda>r. sub_stripe_subscription_id r
                                            = sub_stripe_subscription_id row)
                                    (\<lambda>r. r\<lparr>sub_status := so_status subscription,
                                            sub_cancel_at_period_end :=
                                              so_cancel_at_period_end subscription,
                                            sub_updated_at := now\<rparr>)
                                    (subscriptions s)\<rparr>
                      in if immediate then update_user_status ''free'' userId s1 else s1))))"

text \<open>\<open>POST /api/subscriptions/reactivate\<close>\<close>

definition post_subscription_reactivate :: "ext \<Rightarrow> int \<Rightarrow> int \<Rightarrow> db \<Rightarrow> db" where
  "post_subscription_reactivate x now userId s =
     (if \<not> truthy (STRIPE_SECRET_KEY (x_env x)) then s
      else (case filter (\<lambda>r. sub_user_id r = userId \<and> sub_cancel_at_period_end r)
                    (subscriptions s) of
              [] \<Rightarrow> s
            | row # _ \<Rightarrow>
                (case x_subscriptions_update_cancel x (sub_stripe_subscription_id row) False of
                   None \<Rightarrow> s
                 | Some subscription \<Rightarrow>
                     s\<lparr>subscriptions :=
                         update_where
                           (\<lambda>r. sub_stripe_subscription_id r = sub_stripe_subscription_id row)
                           (\<lambda>r. r\<lparr>sub_cancel_at_period_end := False, sub_updated_at := now\<rparr>)
                           (subscriptions s)\<rparr>)))"

subsection \<open>/api/webhooks and maintenance\<close>

text \<open>
  \<open>POST /api/webhooks/manual-sync\<close> reads \<open>user_id\<close> from the request body. Under
  \<open>/api/webhooks\<close> a JSON body arrives as a raw buffer, which has no \<open>user_id\<close>; a
  form-encoded body gives a string, or an array or object for the bracket syntax. Of
  these only the missing field and the empty string are falsy; the string \<open>0\<close> is
  not. The value goes to the database as a parameter for the integer column
  \<open>user_id\<close>: text that the integer input rejects, like the rendering of an array or
  object, makes the statement fail before it runs, and \<open>createUserAlert\<close> swallows
  the error.
\<close>

datatype form_value = Form_text string | Form_nested

definition post_manual_sync :: "ext \<Rightarrow> int \<Rightarrow> form_value option \<Rightarrow> db \<Rightarrow> db" where
  "post_manual_sync x now user_id s =
     (case user_id of
        None \<Rightarrow> s
      | Some Form_nested \<Rightarrow> s
      | Some (Form_text v) \<Rightarrow>
          if v = [] then s
          else (case x_int4in x v of
                  None \<Rightarrow> s
                | Some uid \<Rightarrow>
                    createUserAlert now uid ''manual_sync'' Sincronizacion_Manual info
                      Manual_data s))"

text \<open>\<open>cleanupExpiredSessions\<close>: \<open>DELETE FROM sessions WHERE expires_at < NOW()\<close>\<close>

definition cleanupExpiredSessions :: "int \<Rightarrow> db \<Rightarrow> db" where
  "cleanupExpiredSessions now s =
     s\<lparr>sessions := filter (\<lambda>r. \<not> sess_expires_at r < now) (sessions s)\<rparr>"

subsection \<open>The operations\<close>

text \<open>The routes that only read behind \<open>requireAuth\<close>, and the routes that neither
  authenticate nor write.\<close>

datatype reading_route =
    GET_users_profile | GET_users_stats | GET_users_alerts | GET_users_integrations
  | GET_integrations | POST_integrations_test | GET_integrations_limits
  | GET_dashboard_overview | GET_dashboard_analytics | GET_dashboard_kpis
  | GET_dashboard_insights | GET_dashboard_export
  | GET_subscriptions_current | GET_subscriptions_invoice_preview

datatype open_route =
    POST_auth_forgot_password | GET_integrations_available | GET_subscriptions_plans
  | GET_webhooks_test | GET_webhooks_events | GET_health | Route_not_found

datatype operation =
    Register "string option" "string option" "string option" "string option"
  | Login "string option" "string option"
  | Logout "string option"
  | Me "string option"
  | Change_password "string option" "string option" "string option"
  | Reading reading_route "string option"
  | Open_route open_route
  | Put_profile "string option" "string option" "string option"
  | Put_alert_read "string option" "int option"
  | Put_alerts_read_all "string option"
  | Delete_alert "string option" "int option"
  | Delete_account "string option" "string option"
  | Post_integration_stripe "string option"
  | Post_integration_google_analytics "string option"
  | Post_integration_gmail "string option"
  | Put_integration "string option" "int option" "string option" "bool option" bool
  | Delete_integration "string option" "int option"
  | Post_integration_sync "string option" "int option"
  | Post_dashboard_sync "string option"
  | Post_subscription_create "string option" "string option"
  | Put_subscription_update "string option" "string option"
  | Delete_subscription_cancel "string option" bool
  | Post_subscription_reactivate "string option"
  | Webhook_stripe webhook_request
  | Webhook_manual_sync "form_value option"
  | Cleanup_expired_sessions
  | Create_tables

text \<open>One request (or one run of a maintenance function) at time \<open>now\<close>. In the
  constructors above the first \<open>string option\<close> of an authenticated route is its
  \<open>Authorization\<close> header. \<open>createTables\<close> issues only
  \<open>CREATE TABLE IF NOT EXISTS\<close> and leaves the rows of existing tables alone.\<close>

fun step :: "ext \<Rightarrow> int \<Rightarrow> operation \<Rightarrow> db \<Rightarrow> db" where
  "step x now (Register email password name company_name) s =
     post_register x now email password name company_name s"
| "step x now (Login email password) s = post_login x now email password s"
| "step x now (Logout authorization) s = post_logout authorization s"
| "step x now (Me authorization) s =
     snd (get_me (jwt_verify_at (x_jwt_decode x) now) now authorization s)"
| "step x now (Change_password authorization currentPassword newPassword) s =
     post_change_password x now authorization currentPassword newPassword s"
| "step x now (Reading route authorization) s = with_auth x now authorization (\<lambda>userId s'. s') s"
| "step x now (Open_route route) s = s"
| "step x now (Put_profile authorization name company_name) s =
     with_auth x now authorization (put_profile x now name company_name) s"
| "step x now (Put_alert_read authorization alertId) s =
     with_auth x now authorization (put_alert_read alertId) s"
| "step x now (Put_alerts_read_all authorization) s =
     with_auth x now authorization put_alerts_read_all s"
| "step x now (Delete_alert authorization alertId) s =
     with_auth x now authorization (delete_alert alertId) s"
| "step x now (Delete_account authorization password) s =
     with_auth x now authorization (delete_account x password) s"
| "step x now (Post_integration_stripe authorization) s =
     with_auth x now authorization (post_integration_stripe now) s"
| "step x now (Post_integration_google_analytics authorization) s =
     with_auth x now authorization post_integration_oauth s"
| "step x now (Post_integration_gmail authorization) s =
     with_auth x now authorization post_integration_oauth s"
| "step x now (Put_integration authorization integrationId integration_name is_active
                 has_additional_data) s =
     with_auth x now authorization
       (put_integration now integrationId integration_name is_active has_additional_data) s"
| "step x now (Delete_integration authorization integrationId) s =
     with_auth x now authorization (delete_integration integrationId) s"
| "step x now (Post_integration_sync authorization integrationId) s =
     with_auth x now authorization (post_integration_sync now integrationId) s"
| "step x now (Post_dashboard_sync authorization) s =
     with_auth x now authorization (post_dashboard_sync now) s"
| "step x now (Post_subscription_create authorization plan_type) s =
     with_auth x now authorization (post_subscription_create x now plan_type) s"
| "step x now (Put_subscription_update authorization plan_type) s =
     with_auth x now authorization (put_subscription_update x now plan_type) s"
| "step x now (Delete_subscription_cancel authorization immediate) s =
     with_auth x now authorization (delete_subscription_cancel x now immediate) s"
| "step x now (Post_subscription_reactivate authorization) s =
     with_auth x now authorization (post_subscription_reactivate x now) s"
| "step x now (Webhook_stripe req) s = snd (post_stripe (x_constructEvent x) (x_env x) now req s)"
| "step x now (Webhook_manual_sync user_id) s = post_manual_sync x now user_id s"
| "step x now Cleanup_expired_sessions s = cleanupExpiredSessions now s"
| "step x now Create_tables s = s"

text \<open>The \<open>subscription_status\<close> column: the status of each user row, by id, in table
  order.\<close>

definition status_column :: "db \<Rightarrow> (int \<times> string) list" where
  "status_column s = map (\<lambda>u. (u_id u, u_subscription_status u)) (users s)"

text \<open>The events whose handlers contain the statement
  \<open>UPDATE users SET subscription_status = $1 WHERE id = $2\<close>.\<close>

fun is_subscription_event :: "stripe_event \<Rightarrow> bool" where
  "is_subscription_event (Customer_subscription_created obj) = True"
| "is_subscription_event (Customer_subscription_updated obj) = True"
| "is_subscription_event (Customer_subscription_deleted obj) = True"
| "is_subscription_event event = False"

text \<open>The operations that can write \<open>users.subscription_status\<close>: a delivery to the
  Stripe webhook that is verified as one of the three subscription events and gets as
  far as the switch, \<open>POST /api/subscriptions/create\<close>,
  \<open>DELETE /api/subscriptions/cancel\<close> when \<open>immediate\<close> is set, and registration,
  which inserts the row with \<open>free\<close>.\<close>

fun writes_subscription_status :: "ext \<Rightarrow> operation \<Rightarrow> bool" where
  "writes_subscription_status x (Webhook_stripe req) =
     (truthy (STRIPE_SECRET_KEY (x_env x))
      \<and> (case verifyStripeWebhook (x_constructEvent x) (x_env x) req of
            Verified event \<Rightarrow> is_subscription_event event
          | _ \<Rightarrow> False))"
| "writes_subscription_status x (Post_subscription_create authorization plan_type) = True"
| "writes_subscription_status x (Delete_subscription_cancel authorization immediate) = immediate"
| "writes_subscription_status x (Register email password name company_name) = True"
| "writes_subscription_status x operation = False"

section \<open>Example stores\<close>

text \<open>Small concrete stores and library stand-ins on which the properties below are
  evaluated.\<close>

definition empty_db :: db where
  "empty_db = \<lparr>users = [], subscriptions = [], integrations = [], dashboard_data = [],
              alerts = [], sessions = [], users_seq = 1, integrations_seq = 1, alerts_seq = 1\<rparr>"

text \<open>A verifier that accepts the token \<open>tok\<close> and decodes user 7 from it.\<close>

definition tok_verify :: "string \<Rightarrow> int option" where
  "tok_verify t = (if t = ''tok'' then Some 7 else None)"

definition tok_session :: "int \<Rightarrow> session_row" where
  "tok_session owner = \<lparr>sess_user_id = owner, sess_session_token = ''tok'',
     sess_expires_at = 1000, sess_created_at = 0\<rparr>"

definition session_db :: "int \<Rightarrow> db" where
  "session_db owner = empty_db\<lparr>sessions := [tok_session owner]\<rparr>"

text \<open>A deployment with both Stripe secrets set, and a \<open>constructEvent\<close> that accepts
  exactly the signature \<open>sig_ok\<close> and then yields the given event.\<close>

definition live_env :: env where
  "live_env = \<lparr>STRIPE_WEBHOOK_SECRET = Some ''whsec'', STRIPE_SECRET_KEY = Some ''sk''\<rparr>"

definition accept_event :: "stripe_event \<Rightarrow> string \<Rightarrow> string option \<Rightarrow> string \<Rightarrow> stripe_event option" where
  "accept_event ev b sg secret = (if sg = Some ''sig_ok'' then Some ev else None)"

definition signed_request :: webhook_request where
  "signed_request = \<lparr>stripe_signature = Some ''sig_ok'', body = ''{}''\<rparr>"

definition forged_request :: webhook_request where
  "forged_request = \<lparr>stripe_signature = Some ''sig_bad'', body = ''{}''\<rparr>"

text \<open>User 7, registered as \<open>a@x.com\<close>, on the free plan; bound to the billing customer
  \<open>cus_1\<close> in \<open>billing_db\<close> and not yet bound in \<open>unbound_db\<close>.\<close>

definition user7 :: "string option \<Rightarrow> user_row" where
  "user7 customer = \<lparr>u_id = 7, u_email = ''a@x.com'', u_password_hash = ''h'', u_name = ''A'',
     u_company_name = None, u_subscription_status = ''free'', u_stripe_customer_id = customer,
     u_created_at = 0, u_updated_at = 0\<rparr>"

definition billing_db :: db where
  "billing_db = empty_db\<lparr>users := [user7 (Some ''cus_1'')], users_seq := 8\<rparr>"

definition unbound_db :: db where
  "unbound_db = empty_db\<lparr>users := [user7 None], users_seq := 8\<rparr>"

text \<open>A subscription payload of customer \<open>cus_1\<close>, and the same for an unknown customer.\<close>

definition sub_event :: "string \<Rightarrow> string \<Rightarrow> subscription_object" where
  "sub_event customer st = \<lparr>so_id = ''sub_1'', so_customer = customer, so_status = st,
     so_metadata_plan_type = Some ''pro'', so_current_period_start = Some 10,
     so_current_period_end = Some 20, so_cancel_at_period_end = False,
     so_trial_end = Some 15\<rparr>"


definition new_customer :: customer_object where
  "new_customer = \<lparr>cus_id = ''cus_9'', cus_email = Some ''a@x.com''\<rparr>"

text \<open>The store of user 7 after subscribing: the subscription \<open>sub_1\<close> and an active
  Gmail integration.\<close>

definition sub_row :: "string \<Rightarrow> string \<Rightarrow> int \<Rightarrow> subscription_row" where
  "sub_row st plan created = \<lparr>sub_user_id = 7, sub_stripe_subscription_id = ''sub_1'',
     sub_status = st, sub_plan_type = plan, sub_current_period_start = 10000,
     sub_current_period_end = 20000, sub_cancel_at_period_end = False,
     sub_created_at = created, sub_updated_at = created\<rparr>"

definition gmail_integration :: "bool \<Rightarrow> integration_row" where
  "gmail_integration active = \<lparr>int_id = 1, int_user_id = 7, int_integration_type = ''gmail'',
     int_integration_name = ''Gmail Business'', int_is_active = active, int_created_at = 50,
     int_updated_at = 50\<rparr>"

definition subscribed_db :: db where
  "subscribed_db = billing_db\<lparr>subscriptions := [sub_row ''trialing'' ''pro'' 100],
     integrations := [gmail_integration True], integrations_seq := 2\<rparr>"

text \<open>The store of user 7 after the subscription \<open>sub_1\<close> (plan \<open>pro\<close>) was
  canceled.\<close>

definition canceled_db :: db where
  "canceled_db = billing_db\<lparr>subscriptions := [sub_row ''canceled'' ''pro'' 100]\<rparr>"

text \<open>
  A token as \<open>generateToken\<close> issues it for user 7 at time 0: it expires after
  2592000 seconds, thirty days. \<open>tok_sign\<close> hands out that one token. In
  \<open>logged_in_db\<close> user 7 has logged in at time 0, so that the session row expires at
  2592000000 milliseconds.
\<close>

definition tok_decode :: "string \<Rightarrow> jwt_payload option" where
  "tok_decode t =
     (if t = ''tok'' then Some \<lparr>jp_userId = 7, jp_iat = 0, jp_exp = Some 2592000\<rparr> else None)"

definition tok_sign :: "jwt_payload \<Rightarrow> string" where
  "tok_sign payload = ''tok''"

definition issued_session :: session_row where
  "issued_session = \<lparr>sess_user_id = 7, sess_session_token = ''tok'',
     sess_expires_at = 2592000000, sess_created_at = 0\<rparr>"

definition logged_in_db :: db where
  "logged_in_db = billing_db\<lparr>sessions := [issued_session]\<rparr>"

text \<open>Stand-ins for the other libraries: a Stripe that creates the trialing
  subscription \<open>sub_1\<close> for any customer and cancels on request, an integer input
  that knows the text \<open>0\<close>, and the live environment.\<close>

definition demo_ext :: ext where
  "demo_ext = \<lparr>x_jwt_decode = tok_decode,
     x_jwt_sign = tok_sign,
     x_bcrypt_hash = (\<lambda>password. ''h''),
     x_bcrypt_compare = (\<lambda>password hash. True),
     x_emailRegex_test = (\<lambda>email. True),
     x_toLowerCase = (\<lambda>str. str),
     x_trim = (\<lambda>str. str),
     x_int4in = (\<lambda>v. if v = ''0'' then Some 0 else None),
     x_constructEvent = accept_event (Other_event ''ping''),
     x_customers_create = (\<lambda>user. Some ''cus_1''),
     x_subscriptions_create = (\<lambda>customer plan. Some (sub_event customer ''trialing'')),
     x_subscriptions_update_price = (\<lambda>sid plan. Some (sub_event ''cus_1'' ''active'')),
     x_subscriptions_update_cancel = (\<lambda>sid flag. Some (sub_event ''cus_1'' ''active'')),
     x_subscriptions_cancel = (\<lambda>sid. Some (sub_event ''cus_1'' ''canceled'')),
     x_env = live_env\<rparr>"

text \<open>The same with a Stripe that delivers a succeeded payment of customer \<open>cus_1\<close>
  under a good signature.\<close>

definition payment_ext :: ext where
  "payment_ext = demo_ext\<lparr>x_constructEvent :=
     accept_event (Invoice_payment_succeeded
       \<lparr>inv_id = ''in_1'', inv_customer = ''cus_1'', inv_amount_paid = 2900,
        inv_amount_due = 2900, inv_currency = ''usd''\<rparr>)\<rparr>"

section \<open>Rows of a table\<close>

subsection \<open>Rows under a unique key\<close>

lemma filter_unique_key:
  "distinct (map f xs) \<Longrightarrow> x \<in> set xs \<Longrightarrow> filter (\<lambda>r. f r = f x) xs = [x]"
proof (induction xs)
  case Nil then show ?case by simp
next
  case (Cons y ys)
  show ?case
  proof (cases "y = x")
    case True
    with Cons.prems have "\<forall>r \<in> set ys. f r \<noteq> f x" by (auto simp: image_iff)
    then have "filter (\<lambda>r. f r = f x) ys = []" by (simp add: filter_empty_conv)
    with True show ?thesis by simp
  next
    case False
    with Cons.prems have "x \<in> set ys" "f y \<noteq> f x" "distinct (map f ys)" by (auto simp: image_iff)
    with Cons.IH show ?thesis by simp
  qed
qed

lemma filter_other_keys:
  "distinct (map f xs) \<Longrightarrow> x \<in> set xs \<Longrightarrow> filter (\<lambda>r. f r \<noteq> f x) xs = remove1 x xs"
proof (induction xs)
  case Nil then show ?case by simp
next
  case (Cons y ys)
  show ?case
  proof (cases "y = x")
    case True
    with Cons.prems have "\<forall>r \<in> set ys. f r \<noteq> f x" by (auto simp: image_iff)
    then have "filter (\<lambda>r. f r \<noteq> f x) ys = ys" by (simp add: filter_id_conv)
    with True show ?thesis by simp
  next
    case False
    with Cons.prems have "x \<in> set ys" "f y \<noteq> f x" "distinct (map f ys)" by (auto simp: image_iff)
    with Cons.IH False show ?thesis by simp
  qed
qed

subsection \<open>UPDATE ... WHERE\<close>

lemma update_where_Nil [simp]: "update_where cond assign [] = []"
  by (simp add: update_where_def)

lemma update_where_Cons [simp]:
  "update_where cond assign (r # rows) =
     (if cond r then assign r else r) # update_where cond assign rows"
  by (simp add: update_where_def)

lemma update_where_append [simp]:
  "update_where cond assign (xs @ ys) = update_where cond assign xs @ update_where cond assign ys"
  by (simp add: update_where_def)

lemma update_where_length [simp]: "length (update_where cond assign rows) = length rows"
  by (simp add: update_where_def)

lemma update_where_mem:
  "x \<in> set (update_where cond assign rows) \<longleftrightarrow>
     (\<exists>r \<in> set rows. x = (if cond r then assign r else r))"
  by (induction rows) auto

lemma update_where_hit:
  "r \<in> set rows \<Longrightarrow> cond r \<Longrightarrow> assign r \<in> set (update_where cond assign rows)"
  by (induction rows) auto

lemma update_where_none:
  "\<forall>r \<in> set rows. \<not> cond r \<Longrightarrow> update_where cond assign rows = rows"
  by (induction rows) simp_all


lemma update_where_key:
  assumes "\<And>r. k (assign r) = k r"
  shows "map k (update_where cond assign rows) = map k rows"
  using assms by (induction rows) simp_all

lemma update_where_filter_key:
  assumes "\<And>r. k (assign r) = k r"
  shows "filter (\<lambda>x. Q (k x)) (update_where cond assign rows) =
         update_where cond assign (filter (\<lambda>x. Q (k x)) rows)"
  using assms by (induction rows) simp_all

lemma update_where_key_exists:
  assumes "\<And>r. k (assign r) = k r"
  shows "(\<exists>x \<in> set (update_where cond assign rows). k x = v) \<longleftrightarrow> (\<exists>x \<in> set rows. k x = v)"
  using assms by (induction rows) simp_all

lemma update_where_all:
  assumes "x \<in> set (update_where cond assign rows)" and "cond x"
    and "\<And>r. cond (assign r) = cond r"
  obtains r where "r \<in> set rows" and "cond r" and "x = assign r"
proof -
  from assms(1) obtain r where r: "r \<in> set rows" "x = (if cond r then assign r else r)"
    by (auto simp only: update_where_mem)
  show ?thesis
  proof (cases "cond r")
    case True
    with r that show ?thesis by simp
  next
    case False
    with r assms(2) show ?thesis by simp
  qed
qed

section \<open>Session Guard: verified properties\<close>

subsection \<open>The session lookup\<close>

lemma select_session_unique:
  assumes "unique_session_tokens s" "r \<in> set (sessions s)"
  shows "select_session (sess_session_token r) uid s = (if sess_user_id r = uid then [r] else [])"
proof -
  have "select_session (sess_session_token r) uid s =
        filter (\<lambda>x. sess_user_id x = uid) (filter (\<lambda>x. sess_session_token x = sess_session_token r) (sessions s))"
    by (simp add: select_session_def conj_commute)
  also have "filter (\<lambda>x. sess_session_token x = sess_session_token r) (sessions s) = [r]"
    using assms filter_unique_key[of sess_session_token "sessions s" r] by (simp add: unique_session_tokens_def)
  finally show ?thesis by simp
qed


lemma select_session_after_delete: "select_session token uid (delete_session token s) = []"
  by (simp add: select_session_def delete_session_def filter_empty_conv)



lemma get_me_via_guard:
  "get_me jwt_verify now authorization s =
     (case requireAuth jwt_verify now authorization s of
        (Inl Token_requerido, s') \<Rightarrow> ((401, Token_no_proporcionado), s')
      | (Inl Token_invalido, s') \<Rightarrow> ((401, Me_Token_invalido), s')
      | (Inl Sesion_invalida, s') \<Rightarrow> ((401, Sesion_no_encontrada), s')
      | (Inl Sesion_expirada, s') \<Rightarrow> ((401, Me_Sesion_expirada), s')
      | (Inr userId, s') \<Rightarrow>
          (case filter (\<lambda>u. u_id u = userId) (users s') of
             [] \<Rightarrow> ((404, Usuario_no_encontrado), s')
           | user # _ \<Rightarrow> ((200, Me_user user), s')))"
  by (simp add: get_me_def requireAuth_def split: option.splits list.splits)



text \<open>The header of the example requests.\<close>

lemma bearer_tok: "bearer_token (Some ''Bearer tok'') = Some ''tok''"
  by (simp add: bearer_token_def)

subsection \<open>Tokens and rows as the program issues them\<close>


lemma seconds_before:
  assumes "now div 1000 < expiry" and "expiry * 1000 \<le> (limit::int)"
  shows "now < limit"
proof -
  have "now = 1000 * (now div 1000) + now mod 1000" by simp
  moreover have "now mod 1000 < 1000" by simp
  moreover from assms(1) have "1000 * (now div 1000) + 1000 \<le> 1000 * expiry" by simp
  ultimately show ?thesis using assms(2) by linarith
qed

lemma sessions_issued_row:
  assumes "sessions_issued decode s" and "r \<in> set (sessions s)"
  shows "sess_session_token r \<noteq> []
       \<and> (\<exists>payload expiry. decode (sess_session_token r) = Some payload
             \<and> jp_userId payload = sess_user_id r \<and> jp_exp payload = Some expiry
             \<and> expiry * 1000 \<le> sess_expires_at r)"
proof -
  from assms have a: "sess_session_token r \<noteq> []
       \<and> (case decode (sess_session_token r) of
            None \<Rightarrow> False
          | Some payload \<Rightarrow>
              jp_userId payload = sess_user_id r
              \<and> (case jp_exp payload of
                   None \<Rightarrow> False
                 | Some expiry \<Rightarrow> expiry * 1000 \<le> sess_expires_at r))"
    unfolding sessions_issued_def by blast
  show ?thesis
  proof (cases "decode (sess_session_token r)")
    case None
    with a show ?thesis by simp
  next
    case (Some payload)
    with a show ?thesis by (cases "jp_exp payload") simp_all
  qed
qed

lemma jwt_verify_at_issued:
  assumes "sessions_issued decode s" and "r \<in> set (sessions s)"
    and "jwt_verify_at decode now (sess_session_token r) = Some uid"
  shows "uid = sess_user_id r \<and> now < sess_expires_at r"
proof -
  from sessions_issued_row[OF assms(1,2)] obtain payload expiry where
      p: "decode (sess_session_token r) = Some payload"
      "jp_userId payload = sess_user_id r" "jp_exp payload = Some expiry"
      "expiry * 1000 \<le> sess_expires_at r"
    by blast
  have v: "jwt_verify_at decode now (sess_session_token r) =
           (if sess_session_token r = [] then None
            else if now div 1000 \<ge> expiry then None else Some (sess_user_id r))"
    using p(1,2,3) by (simp add: jwt_verify_at_def)
  from assms(3) have "uid = sess_user_id r" "now div 1000 < expiry"
    unfolding v by (simp_all split: if_splits)
  with p(4) seconds_before[of now expiry "sess_expires_at r"] show ?thesis by simp
qed

lemma jwt_verify_at_expired:
  assumes "sessions_issued decode s" and "r \<in> set (sessions s)" and "sess_expires_at r \<le> now"
  shows "jwt_verify_at decode now (sess_session_token r) = None"
proof (cases "jwt_verify_at decode now (sess_session_token r)")
  case None then show ?thesis .
next
  case (Some uid)
  from jwt_verify_at_issued[OF assms(1,2) Some] assms(3) show ?thesis by simp
qed

lemma requireAuth_expired_token:
  assumes "sessions_issued decode s" and "r \<in> set (sessions s)"
    and "bearer_token authorization = Some (sess_session_token r)" and "sess_expires_at r \<le> now"
  shows "requireAuth (jwt_verify_at decode now) now authorization s = (Inl Token_invalido, s)"
proof -
  from sessions_issued_row[OF assms(1,2)] have "sess_session_token r \<noteq> []" by simp
  with assms(3) jwt_verify_at_expired[OF assms(1,2,4)] show ?thesis
    by (simp add: requireAuth_def)
qed

subsection \<open>Claim C1: when the guard accepts\<close>


text \<open>
  User 7 logged in at time 0, so that the row expires at 2592000000. One millisecond
  before that the guard accepts user 7; at that very millisecond it rejects.
\<close>

lemma logged_in_db_by_login:
  "step demo_ext 0 (Login (Some ''a@x.com'') (Some ''secret'')) billing_db = logged_in_db"
  by (simp add: post_login_def insert_session_def generateToken_def demo_ext_def tok_sign_def
        billing_db_def empty_db_def user7_def logged_in_db_def issued_session_def)

lemma logged_in_db_sessions:
  "unique_session_tokens logged_in_db \<and> sessions_issued tok_decode logged_in_db"
  by (simp add: unique_session_tokens_def sessions_issued_def logged_in_db_def issued_session_def
        tok_decode_def)


subsection \<open>Claim C5: cleanup on access\<close>

text \<open>
  Claim C5 (what the code does instead). Let the store hold the sessions the program
  issues (every store the operations produce does, as the last section shows), and let
  a request present the token of a session row \<open>r\<close> after the row has
  expired, \<open>expires_at < now\<close>. The token expired with the row or before it, so
  \<open>jwt.verify\<close> raises before the session is looked up: \<open>requireAuth\<close> and
  \<open>GET /api/auth/me\<close> answer 401 "Token invalido", not "Sesion expirada", and the store is
  returned as it was, the expired row still in the sessions table. The branch that
  answers "Sesion expirada" and deletes the row is never taken for such a token.
\<close>

theorem C5_expired_session_is_not_deleted:
  assumes "sessions_issued decode s"
    and "r \<in> set (sessions s)"
    and "bearer_token authorization = Some (sess_session_token r)"
    and "sess_expires_at r < now"
  shows "requireAuth (jwt_verify_at decode now) now authorization s = (Inl Token_invalido, s)
       \<and> get_me (jwt_verify_at decode now) now authorization s = ((401, Me_Token_invalido), s)
       \<and> fst (requireAuth (jwt_verify_at decode now) now authorization s) \<noteq> Inl Sesion_expirada
       \<and> r \<in> set (sessions (snd (requireAuth (jwt_verify_at decode now) now authorization s)))
       \<and> r \<in> set (sessions (snd (get_me (jwt_verify_at decode now) now authorization s)))"
proof -
  from assms(4) have "sess_expires_at r \<le> now" by simp
  from requireAuth_expired_token[OF assms(1,2,3) this]
  have g: "requireAuth (jwt_verify_at decode now) now authorization s = (Inl Token_invalido, s)" .
  then have m: "get_me (jwt_verify_at decode now) now authorization s = ((401, Me_Token_invalido), s)"
    by (simp add: get_me_via_guard)
  from g m assms(2) show ?thesis by simp
qed

text \<open>User 7 logged in at time 0 and comes back one millisecond after the row
  expired: the answer is "Token invalido" and the row is still there.\<close>

theorem C5_expired_session_is_not_deleted_witness:
  "sessions_issued tok_decode logged_in_db
   \<and> issued_session \<in> set (sessions logged_in_db)
   \<and> sess_expires_at issued_session < 2592000001
   \<and> requireAuth (jwt_verify_at tok_decode 2592000001) 2592000001 (Some ''Bearer tok'') logged_in_db
       = (Inl Token_invalido, logged_in_db)
   \<and> get_me (jwt_verify_at tok_decode 2592000001) 2592000001 (Some ''Bearer tok'') logged_in_db
       = ((401, Me_Token_invalido), logged_in_db)"
  using C5_expired_session_is_not_deleted [of tok_decode logged_in_db issued_session
          "Some ''Bearer tok''" 2592000001]
  by (simp add: sessions_issued_def logged_in_db_def issued_session_def tok_decode_def bearer_tok)

subsection \<open>Claim C6: token and session owner differ\<close>

text \<open>
  Claim C6 (as amended). When the verified token embeds \<open>uid\<close> and the session row of
  that token string has another owner, \<open>requireAuth\<close> answers "Sesion invalida" and
  \<open>GET /api/auth/me\<close> answers "Sesion no encontrada", both leaving the store unchanged:
  the same answer as for a token with no session row at all, and not "Token invalido".
\<close>

theorem C6_owner_mismatch_is_unknown_session:
  assumes "unique_session_tokens s"
    and "bearer_token authorization = Some token" and "token \<noteq> []"
    and "jwt_verify token = Some uid"
    and "r \<in> set (sessions s)" and "sess_session_token r = token" and "sess_user_id r \<noteq> uid"
  shows "requireAuth jwt_verify now authorization s = (Inl Sesion_invalida, s)
       \<and> get_me jwt_verify now authorization s = ((401, Sesion_no_encontrada), s)
       \<and> fst (requireAuth jwt_verify now authorization (delete_session token s)) = Inl Sesion_invalida"
proof -
  have sel: "select_session token uid s = []"
    using select_session_unique[OF assms(1) assms(5), of uid] assms(6,7) by simp
  have g: "requireAuth jwt_verify now authorization s = (Inl Sesion_invalida, s)"
    using assms(2,3,4) sel by (simp add: requireAuth_def)
  have m: "get_me jwt_verify now authorization s = ((401, Sesion_no_encontrada), s)"
    using g by (simp add: get_me_via_guard)
  have a: "fst (requireAuth jwt_verify now authorization (delete_session token s)) = Inl Sesion_invalida"
    using assms(2,3,4) by (simp add: requireAuth_def select_session_after_delete)
  from g m a show ?thesis by blast
qed

text \<open>The session of user 8 presented with a token of user 7, well before expiry.\<close>

theorem C6_owner_mismatch_is_unknown_session_witness:
  "requireAuth tok_verify 500 (Some ''Bearer tok'') (session_db 8) = (Inl Sesion_invalida, session_db 8)
   \<and> get_me tok_verify 500 (Some ''Bearer tok'') (session_db 8) = ((401, Sesion_no_encontrada), session_db 8)"
  using C6_owner_mismatch_is_unknown_session [of "session_db 8" "Some ''Bearer tok''" "''tok''"
          tok_verify 7 "tok_session 8" 500]
  by (simp add: unique_session_tokens_def session_db_def empty_db_def tok_session_def
        tok_verify_def bearer_tok)

text \<open>The claim as written expects the invalid-token answer here; the code gives
  another one.\<close>

theorem C6_not_invalid_token_counterexample:
  "sessions (session_db 8) = [tok_session 8]
   \<and> sess_session_token (tok_session 8) = ''tok''
   \<and> sess_user_id (tok_session 8) = 8
   \<and> tok_verify ''tok'' = Some 7
   \<and> fst (requireAuth tok_verify 500 (Some ''Bearer tok'') (session_db 8)) \<noteq> Inl Token_invalido
   \<and> fst (get_me tok_verify 500 (Some ''Bearer tok'') (session_db 8)) \<noteq> (401, Me_Token_invalido)"
  by (simp add: requireAuth_def get_me_def bearer_tok tok_verify_def select_session_def session_db_def
        empty_db_def tok_session_def)

section \<open>Billing Event Reconciler: verified properties\<close>

subsection \<open>Resolving the user\<close>

lemma getUserByStripeCustomer_Some:
  assumes "getUserByStripeCustomer c s = Some user"
  shows "user \<in> set (users s) \<and> u_stripe_customer_id user = Some c"
proof -
  from assms obtain rest where
    "filter (\<lambda>u. u_stripe_customer_id u = Some c) (users s) = user # rest"
    by (auto simp: getUserByStripeCustomer_def split: list.splits)
  then have "user \<in> set (filter (\<lambda>u. u_stripe_customer_id u = Some c) (users s))" by simp
  then show ?thesis by simp
qed

lemma getUserByStripeCustomer_None:
  "getUserByStripeCustomer c s = None \<longleftrightarrow>
     (\<forall>u \<in> set (users s). u_stripe_customer_id u \<noteq> Some c)"
proof -
  have "getUserByStripeCustomer c s = None \<longleftrightarrow>
        filter (\<lambda>u. u_stripe_customer_id u = Some c) (users s) = []"
    by (simp add: getUserByStripeCustomer_def split: list.splits)
  then show ?thesis by (simp add: filter_empty_conv)
qed

lemma getUserByStripeCustomer_cong:
  "users s' = users s \<Longrightarrow> getUserByStripeCustomer c s' = getUserByStripeCustomer c s"
  by (simp add: getUserByStripeCustomer_def)

lemma getUserByStripeCustomer_after_status:
  assumes "getUserByStripeCustomer c s = Some user"
  shows "getUserByStripeCustomer c (update_user_status st (u_id user) s) =
           Some (user\<lparr>u_subscription_status := st\<rparr>)"
proof -
  let ?sel = "filter (\<lambda>u. u_stripe_customer_id u = Some c)"
  let ?upd = "update_where (\<lambda>u. u_id u = u_id user) (u_subscription_status_update (\<lambda>_. st))"
  from assms obtain rest where sel: "?sel (users s) = user # rest"
    by (auto simp: getUserByStripeCustomer_def split: list.splits)
  have "?sel (?upd (users s)) = ?upd (?sel (users s))"
    by (rule update_where_filter_key) simp
  with sel have "?sel (?upd (users s)) = user\<lparr>u_subscription_status := st\<rparr> # ?upd rest"
    by simp
  then show ?thesis by (simp add: getUserByStripeCustomer_def update_user_status_def)
qed

text \<open>A reference that exactly one user carries.\<close>

lemma resolved_user:
  assumes "filter (\<lambda>u. u_stripe_customer_id u = Some c) (users s) = [user]"
  shows "getUserByStripeCustomer c s = Some user" and "user \<in> set (users s)"
proof -
  from assms show "getUserByStripeCustomer c s = Some user"
    by (simp add: getUserByStripeCustomer_def)
  from assms have "user \<in> set (filter (\<lambda>u. u_stripe_customer_id u = Some c) (users s))" by simp
  then show "user \<in> set (users s)" by simp
qed

lemma resolved_after_status:
  assumes "filter (\<lambda>u. u_stripe_customer_id u = Some c) (users s) = [user]"
  shows "filter (\<lambda>u. u_stripe_customer_id u = Some c) (users (update_user_status st (u_id user) s))
           = [user\<lparr>u_subscription_status := st\<rparr>]"
proof -
  let ?sel = "filter (\<lambda>u. u_stripe_customer_id u = Some c)"
  let ?upd = "update_where (\<lambda>u. u_id u = u_id user) (u_subscription_status_update (\<lambda>_. st))"
  have "?sel (?upd (users s)) = ?upd (?sel (users s))"
    by (rule update_where_filter_key) simp
  with assms show ?thesis by (simp add: update_user_status_def)
qed

subsection \<open>Effects of the single statements\<close>

lemma update_user_status_fields [simp]:
  "subscriptions (update_user_status st uid s) = subscriptions s"
  "integrations (update_user_status st uid s) = integrations s"
  "dashboard_data (update_user_status st uid s) = dashboard_data s"
  "alerts (update_user_status st uid s) = alerts s"
  "sessions (update_user_status st uid s) = sessions s"
  "users_seq (update_user_status st uid s) = users_seq s"
  "integrations_seq (update_user_status st uid s) = integrations_seq s"
  "alerts_seq (update_user_status st uid s) = alerts_seq s"
  by (simp_all add: update_user_status_def)

lemma update_user_status_users:
  "users (update_user_status st uid s) =
     update_where (\<lambda>u. u_id u = uid) (u_subscription_status_update (\<lambda>_. st)) (users s)"
  by (simp add: update_user_status_def)

lemma update_user_status_ids [simp]:
  "(\<exists>u \<in> set (users (update_user_status st uid s)). u_id u = k) \<longleftrightarrow>
   (\<exists>u \<in> set (users s). u_id u = k)"
  unfolding update_user_status_users by (rule update_where_key_exists) simp

lemma update_user_status_sets:
  assumes "u \<in> set (users (update_user_status st uid s))" and "u_id u = uid"
  shows "u_subscription_status u = st"
proof -
  from assms(1) have "u \<in> set (update_where (\<lambda>u. u_id u = uid)
      (u_subscription_status_update (\<lambda>_. st)) (users s))"
    by (simp only: update_user_status_users)
  from this assms(2) obtain r where "u = u_subscription_status_update (\<lambda>_. st) r"
    by (rule update_where_all) simp
  then show ?thesis by simp
qed


lemma createUserAlert_fields [simp]:
  "users (createUserAlert now uid ty title sev dat s) = users s"
  "subscriptions (createUserAlert now uid ty title sev dat s) = subscriptions s"
  "integrations (createUserAlert now uid ty title sev dat s) = integrations s"
  "dashboard_data (createUserAlert now uid ty title sev dat s) = dashboard_data s"
  "sessions (createUserAlert now uid ty title sev dat s) = sessions s"
  "users_seq (createUserAlert now uid ty title sev dat s) = users_seq s"
  "integrations_seq (createUserAlert now uid ty title sev dat s) = integrations_seq s"
  "alerts_seq (createUserAlert now uid ty title sev dat s) = alerts_seq s + 1"
  by (simp_all add: createUserAlert_def)

lemma createUserAlert_alerts:
  "\<exists>u \<in> set (users s). u_id u = uid \<Longrightarrow>
   alerts (createUserAlert now uid ty title sev dat s) =
     alerts s @ [\<lparr>al_id = alerts_seq s, al_user_id = uid, al_alert_type = ty, al_title = title,
                  al_severity = sev, al_data = dat, al_is_read = False, al_created_at = now\<rparr>]"
  by (simp add: createUserAlert_def)

lemma upsert_subscription_fields [simp]:
  "users (upsert_subscription now new s) = users s"
  "integrations (upsert_subscription now new s) = integrations s"
  "dashboard_data (upsert_subscription now new s) = dashboard_data s"
  "alerts (upsert_subscription now new s) = alerts s"
  "sessions (upsert_subscription now new s) = sessions s"
  "users_seq (upsert_subscription now new s) = users_seq s"
  "integrations_seq (upsert_subscription now new s) = integrations_seq s"
  "alerts_seq (upsert_subscription now new s) = alerts_seq s"
  by (simp_all add: upsert_subscription_def)

lemma update_subscription_fields [simp]:
  "users (update_subscription now ev period_start period_end s) = users s"
  "integrations (update_subscription now ev period_start period_end s) = integrations s"
  "dashboard_data (update_subscription now ev period_start period_end s) = dashboard_data s"
  "alerts (update_subscription now ev period_start period_end s) = alerts s"
  "sessions (update_subscription now ev period_start period_end s) = sessions s"
  "users_seq (update_subscription now ev period_start period_end s) = users_seq s"
  "integrations_seq (update_subscription now ev period_start period_end s) = integrations_seq s"
  "alerts_seq (update_subscription now ev period_start period_end s) = alerts_seq s"
  by (simp_all add: update_subscription_def)

lemma cancel_subscription_fields [simp]:
  "users (cancel_subscription now sid s) = users s"
  "integrations (cancel_subscription now sid s) = integrations s"
  "dashboard_data (cancel_subscription now sid s) = dashboard_data s"
  "alerts (cancel_subscription now sid s) = alerts s"
  "sessions (cancel_subscription now sid s) = sessions s"
  "users_seq (cancel_subscription now sid s) = users_seq s"
  "integrations_seq (cancel_subscription now sid s) = integrations_seq s"
  "alerts_seq (cancel_subscription now sid s) = alerts_seq s"
  by (simp_all add: cancel_subscription_def)

lemma deactivate_premium_integrations_fields [simp]:
  "users (deactivate_premium_integrations uid s) = users s"
  "subscriptions (deactivate_premium_integrations uid s) = subscriptions s"
  "dashboard_data (deactivate_premium_integrations uid s) = dashboard_data s"
  "alerts (deactivate_premium_integrations uid s) = alerts s"
  "sessions (deactivate_premium_integrations uid s) = sessions s"
  "users_seq (deactivate_premium_integrations uid s) = users_seq s"
  "integrations_seq (deactivate_premium_integrations uid s) = integrations_seq s"
  "alerts_seq (deactivate_premium_integrations uid s) = alerts_seq s"
  by (simp_all add: deactivate_premium_integrations_def)

subsection \<open>The upsert\<close>

lemma do_update_set_key [simp]:
  "sub_stripe_subscription_id (do_update_set now excluded r) = sub_stripe_subscription_id r"
  by (simp add: do_update_set_def)

lemma do_update_set_twice:
  "sub_updated_at_update (\<lambda>_. t) (do_update_set now2 new (do_update_set now1 new r)) =
   sub_updated_at_update (\<lambda>_. t) (do_update_set now1 new r)"
  by (simp add: do_update_set_def)

lemma do_update_set_new:
  "sub_updated_at_update (\<lambda>_. t) (do_update_set now2 new new) = sub_updated_at_update (\<lambda>_. t) new"
  by (simp add: do_update_set_def)



lemma upsert_subscription_exists:
  "\<exists>r \<in> set (subscriptions (upsert_subscription now new s)).
      sub_stripe_subscription_id r = sub_stripe_subscription_id new"
proof (cases "\<exists>r \<in> set (subscriptions s). sub_stripe_subscription_id r = sub_stripe_subscription_id new")
  case True
  have "(\<exists>x \<in> set (update_where (\<lambda>r. sub_stripe_subscription_id r = sub_stripe_subscription_id new)
             (do_update_set now new) (subscriptions s)).
           sub_stripe_subscription_id x = sub_stripe_subscription_id new) \<longleftrightarrow>
        (\<exists>x \<in> set (subscriptions s). sub_stripe_subscription_id x = sub_stripe_subscription_id new)"
    by (rule update_where_key_exists) simp
  with True show ?thesis by (simp add: upsert_subscription_def)
next
  case False
  then show ?thesis by (simp add: upsert_subscription_def)
qed

text \<open>A second upsert of the same values changes at most \<open>updated_at\<close>.\<close>

lemma update_where_twice_modulo:
  assumes "\<And>r. cond (assign1 r) = cond r"
    and "\<And>r. h (assign2 (assign1 r)) = h (assign1 r)"
  shows "map h (update_where cond assign2 (update_where cond assign1 rows)) =
         map h (update_where cond assign1 rows)"
  using assms by (induction rows) simp_all

lemma upsert_subscription_twice:
  assumes "sub_stripe_subscription_id new2 = sub_stripe_subscription_id new"
    and "sub_status new2 = sub_status new"
    and "sub_current_period_start new2 = sub_current_period_start new"
    and "sub_current_period_end new2 = sub_current_period_end new"
    and "sub_cancel_at_period_end new2 = sub_cancel_at_period_end new"
  shows "map (sub_updated_at_update (\<lambda>_. 0))
           (subscriptions (upsert_subscription now2 new2 (upsert_subscription now1 new s))) =
         map (sub_updated_at_update (\<lambda>_. 0)) (subscriptions (upsert_subscription now1 new s))"
proof -
  let ?k = "sub_stripe_subscription_id new"
  let ?s1 = "upsert_subscription now1 new s"
  have d2: "do_update_set now2 new2 = do_update_set now2 new"
    using assms by (simp add: do_update_set_def fun_eq_iff)
  have step: "subscriptions (upsert_subscription now2 new2 ?s1)
              = update_where (\<lambda>r. sub_stripe_subscription_id r = ?k) (do_update_set now2 new)
                  (subscriptions ?s1)"
    using upsert_subscription_exists[of now1 new s] assms(1) d2
    by (simp add: upsert_subscription_def[of now2])
  show ?thesis
  proof (cases "\<exists>r \<in> set (subscriptions s). sub_stripe_subscription_id r = ?k")
    case True
    then have s1: "subscriptions ?s1 =
        update_where (\<lambda>r. sub_stripe_subscription_id r = ?k) (do_update_set now1 new) (subscriptions s)"
      by (simp add: upsert_subscription_def)
    show ?thesis unfolding step unfolding s1
      by (rule update_where_twice_modulo) (simp_all add: do_update_set_twice)
  next
    case False
    then have s1: "subscriptions ?s1 = subscriptions s @ [new]"
      by (simp add: upsert_subscription_def)
    from False have "update_where (\<lambda>r. sub_stripe_subscription_id r = ?k) (do_update_set now2 new)
          (subscriptions s) = subscriptions s"
      by (simp add: update_where_none)
    then show ?thesis unfolding step s1 by (simp add: do_update_set_new)
  qed
qed




subsection \<open>The example store\<close>



lemma sub_event_fields:
  "so_id (sub_event c st) = ''sub_1''"
  "so_customer (sub_event c st) = c"
  "so_status (sub_event c st) = st"
  "so_metadata_plan_type (sub_event c st) = Some ''pro''"
  "so_cancel_at_period_end (sub_event c st) = False"
  "date_param (so_current_period_start (sub_event c st)) = Some 10000"
  "date_param (so_current_period_end (sub_event c st)) = Some 20000"
  by (simp_all add: sub_event_def date_param_def js_date_def)

subsection \<open>Claim C2: redelivery of a subscription-created event\<close>






subsection \<open>Claim C3: events for an unknown customer\<close>

lemma dispatch_event_unresolved:
  assumes "event_customer ev = Some c" and "getUserByStripeCustomer c s = None"
    and "\<not> is_customer_created ev"
  shows "dispatch_event now ev s = s"
  using assms
  by (cases ev)
     (simp_all add: handleSubscriptionCreated_def handleSubscriptionUpdated_def
        handleSubscriptionDeleted_def handlePaymentSucceeded_def handlePaymentFailed_def
        handleTrialWillEnd_def)

lemma post_stripe_verified:
  assumes "verifyStripeWebhook constructEvent e req = Verified ev"
  shows "post_stripe constructEvent e now req s =
           (if \<not> truthy (STRIPE_SECRET_KEY e) then ((200, Received_development), s)
            else ((200, Received), dispatch_event now ev s))"
  using assms by (simp add: post_stripe_def)

text \<open>
  Claim C3 (as amended). For every verified inbound event of a kind other than
  \<open>customer.created\<close> whose billing customer reference matches no user, the webhook
  route answers with a success status and the store afterwards is the store before:
  no Subscription row, no User field, no Alert row and no sequence is written.
\<close>

theorem C3_unresolvable_user_is_dropped:
  assumes "verifyStripeWebhook constructEvent e req = Verified ev"
    and "event_customer ev = Some c"
    and "getUserByStripeCustomer c s = None"
    and "\<not> is_customer_created ev"
  shows "is_success (fst (fst (post_stripe constructEvent e now req s)))
       \<and> snd (post_stripe constructEvent e now req s) = s"
  using dispatch_event_unresolved[OF assms(2,3,4), of now]
  by (simp add: post_stripe_verified[OF assms(1)] is_success_def)

lemma signed_request_verified:
  "verifyStripeWebhook (accept_event ev) live_env signed_request = Verified ev"
  by (simp add: verifyStripeWebhook_def live_env_def accept_event_def signed_request_def)

lemma forged_request_rejected:
  "verifyStripeWebhook (accept_event ev) live_env forged_request = Verify_false"
  by (simp add: verifyStripeWebhook_def live_env_def accept_event_def forged_request_def)

text \<open>A subscription of the unknown customer \<open>cus_2\<close> against the store of user 7.\<close>

theorem C3_unresolvable_user_is_dropped_witness:
  "verifyStripeWebhook (accept_event (Customer_subscription_created (sub_event ''cus_2'' ''active'')))
       live_env signed_request
     = Verified (Customer_subscription_created (sub_event ''cus_2'' ''active''))
   \<and> event_customer (Customer_subscription_created (sub_event ''cus_2'' ''active'')) = Some ''cus_2''
   \<and> getUserByStripeCustomer ''cus_2'' billing_db = None
   \<and> snd (post_stripe (accept_event (Customer_subscription_created (sub_event ''cus_2'' ''active'')))
        live_env 100 signed_request billing_db) = billing_db"
proof -
  have v: "verifyStripeWebhook (accept_event (Customer_subscription_created (sub_event ''cus_2'' ''active'')))
       live_env signed_request
     = Verified (Customer_subscription_created (sub_event ''cus_2'' ''active''))"
    by (rule signed_request_verified)
  have c: "event_customer (Customer_subscription_created (sub_event ''cus_2'' ''active'')) = Some ''cus_2''"
    by (simp add: sub_event_def)
  have n: "getUserByStripeCustomer ''cus_2'' billing_db = None"
    by (simp add: getUserByStripeCustomer_def billing_db_def empty_db_def user7_def)
  have k: "\<not> is_customer_created (Customer_subscription_created (sub_event ''cus_2'' ''active''))"
    by simp
  from C3_unresolvable_user_is_dropped [OF v c n k, of 100] v c n show ?thesis by simp
qed

text \<open>
  The claim as written covers every event kind. A \<open>customer.created\<close> event is matched
  by email, not by customer reference: the new customer \<open>cus_9\<close> matches no user by
  reference, the route acknowledges, and the \<open>stripe_customer_id\<close> of the user with
  the customer's email has been written.
\<close>

theorem C3_customer_created_counterexample:
  "verifyStripeWebhook (accept_event (Customer_created new_customer)) live_env signed_request
     = Verified (Customer_created new_customer)
   \<and> event_customer (Customer_created new_customer) = Some ''cus_9''
   \<and> getUserByStripeCustomer ''cus_9'' unbound_db = None
   \<and> users unbound_db = [user7 None]
   \<and> post_stripe (accept_event (Customer_created new_customer)) live_env 100 signed_request unbound_db
       = ((200, Received), unbound_db\<lparr>users := [user7 (Some ''cus_9'')]\<rparr>)"
proof (intro conjI)
  show "verifyStripeWebhook (accept_event (Customer_created new_customer)) live_env signed_request
     = Verified (Customer_created new_customer)"
    by (rule signed_request_verified)
  show "event_customer (Customer_created new_customer) = Some ''cus_9''"
    by (simp add: new_customer_def)
  show "getUserByStripeCustomer ''cus_9'' unbound_db = None"
    by (simp add: getUserByStripeCustomer_def unbound_db_def empty_db_def user7_def)
  show "users unbound_db = [user7 None]"
    by (simp add: unbound_db_def)
  have live: "truthy (STRIPE_SECRET_KEY live_env)"
    by (simp add: truthy_def live_env_def)
  have "handleCustomerCreated new_customer unbound_db = unbound_db\<lparr>users := [user7 (Some ''cus_9'')]\<rparr>"
    by (simp add: handleCustomerCreated_def new_customer_def unbound_db_def empty_db_def user7_def)
  then show "post_stripe (accept_event (Customer_created new_customer)) live_env 100 signed_request unbound_db
       = ((200, Received), unbound_db\<lparr>users := [user7 (Some ''cus_9'')]\<rparr>)"
    using live by (simp add: post_stripe_verified[OF signed_request_verified])
qed

subsection \<open>Claim C4: a deleted subscription\<close>

lemma cancel_subscription_rows:
  assumes "r' \<in> set (subscriptions (cancel_subscription now sid s))"
    and "sub_stripe_subscription_id r' = sid"
  shows "sub_status r' = ''canceled''"
proof -
  from assms(1) have "r' \<in> set (update_where (\<lambda>r. sub_stripe_subscription_id r = sid)
      (\<lambda>r. r\<lparr>sub_status := ''canceled'', sub_updated_at := now\<rparr>) (subscriptions s))"
    by (simp add: cancel_subscription_def)
  from this assms(2) obtain r where "r' = r\<lparr>sub_status := ''canceled'', sub_updated_at := now\<rparr>"
    by (rule update_where_all) simp
  then show ?thesis by simp
qed

lemma cancel_subscription_hit:
  assumes "r \<in> set (subscriptions s)" and "sub_stripe_subscription_id r = sid"
  shows "r\<lparr>sub_status := ''canceled'', sub_updated_at := now\<rparr>
           \<in> set (subscriptions (cancel_subscription now sid s))"
  using update_where_hit[of r "subscriptions s" "\<lambda>r. sub_stripe_subscription_id r = sid"
          "\<lambda>r. r\<lparr>sub_status := ''canceled'', sub_updated_at := now\<rparr>"] assms
  by (simp add: cancel_subscription_def)

lemma deactivate_premium_integrations_integrations:
  "integrations (deactivate_premium_integrations uid s) =
     update_where (\<lambda>i. int_user_id i = uid
                            \<and> int_integration_type i \<in> {''google_analytics'', ''gmail''})
           (int_is_active_update (\<lambda>_. False))
           (integrations s)"
  unfolding deactivate_premium_integrations_def by simp

lemma deactivate_premium_integrations_rows:
  assumes "i \<in> set (integrations (deactivate_premium_integrations uid s))"
    and "int_user_id i = uid"
    and "int_integration_type i = ''google_analytics'' \<or> int_integration_type i = ''gmail''"
  shows "\<not> int_is_active i"
proof -
  define cond where "cond = (\<lambda>i::integration_row. int_user_id i = uid
      \<and> int_integration_type i \<in> {''google_analytics'', ''gmail''})"
  have keep: "cond (int_is_active_update (\<lambda>_. False) r) = cond r" for r
    by (simp add: cond_def)
  from assms(1) have "i \<in> set (update_where cond (int_is_active_update (\<lambda>_. False)) (integrations s))"
    by (simp only: deactivate_premium_integrations_integrations cond_def)
  moreover from assms(2,3) have "cond i" by (simp add: cond_def)
  ultimately obtain r where "i = int_is_active_update (\<lambda>_. False) r"
    by (rule update_where_all) (rule keep)
  then show ?thesis by simp
qed

lemma deactivate_premium_integrations_hit:
  assumes "i \<in> set (integrations s)" and "int_user_id i = uid"
    and "int_integration_type i = ''google_analytics'' \<or> int_integration_type i = ''gmail''"
  shows "i\<lparr>int_is_active := False\<rparr> \<in> set (integrations (deactivate_premium_integrations uid s))"
proof -
  define cond where "cond = (\<lambda>i::integration_row. int_user_id i = uid
      \<and> int_integration_type i \<in> {''google_analytics'', ''gmail''})"
  from assms(2,3) have "cond i" by (simp add: cond_def)
  from update_where_hit[OF assms(1), of cond, OF this]
  have "int_is_active_update (\<lambda>_. False) i
          \<in> set (update_where cond (int_is_active_update (\<lambda>_. False)) (integrations s))" .
  then show ?thesis by (simp only: deactivate_premium_integrations_integrations cond_def)
qed

lemma handleSubscriptionDeleted_resolved:
  assumes "getUserByStripeCustomer (so_customer ev) s = Some user"
  shows "handleSubscriptionDeleted now ev s =
           createUserAlert now (u_id user) ''subscription_canceled'' Suscripcion_Cancelada
             warning (Canceled_data (so_id ev))
             (deactivate_premium_integrations (u_id user)
               (update_user_status ''free'' (u_id user)
                 (cancel_subscription now (so_id ev) s)))"
  using assms by (simp add: handleSubscriptionDeleted_def)

text \<open>
  Claim C4. Let the customer reference of a subscription-deleted event be carried by
  exactly one user \<open>U\<close>, and let \<open>r\<close> be a Subscription row with the event's billing
  subscription reference. After handling:
  the subscriptions table is the former one with status \<open>canceled\<close> (and refreshed
  \<open>updated_at\<close>) in the rows of that reference, so that \<open>r\<close> is in the table as a canceled
  row and every row of the reference is canceled;
  the users table is the former one with \<open>subscription_status\<close> \<open>free\<close> in the row of \<open>U\<close>,
  and the reference still resolves to that row;
  the integrations table is the former one, row for row, with \<open>is_active\<close> false in
  the rows of \<open>U\<close> of type \<open>google_analytics\<close> or \<open>gmail\<close> (the types a free plan does
  not offer): each such integration of \<open>U\<close> is kept and is inactive, and no other
  integration is touched;
  and the alerts table is the former one with exactly one more row, an unread alert
  for \<open>U\<close> of kind \<open>subscription_canceled\<close> and severity warning.
\<close>

theorem C4_subscription_deleted:
  assumes resolved: "filter (\<lambda>u. u_stripe_customer_id u = Some (so_customer ev)) (users s) = [user]"
    and row: "r \<in> set (subscriptions s)" and ref: "sub_stripe_subscription_id r = so_id ev"
    and after: "s' = handleSubscriptionDeleted now ev s"
  shows "subscriptions s' =
           update_where (\<lambda>r. sub_stripe_subscription_id r = so_id ev)
             (\<lambda>r. r\<lparr>sub_status := ''canceled'', sub_updated_at := now\<rparr>) (subscriptions s)
       \<and> r\<lparr>sub_status := ''canceled'', sub_updated_at := now\<rparr> \<in> set (subscriptions s')
       \<and> (\<forall>r' \<in> set (subscriptions s').
             sub_stripe_subscription_id r' = so_id ev \<longrightarrow> sub_status r' = ''canceled'')
       \<and> users s' =
           update_where (\<lambda>u. u_id u = u_id user) (\<lambda>u. u\<lparr>u_subscription_status := ''free''\<rparr>)
             (users s)
       \<and> filter (\<lambda>u. u_stripe_customer_id u = Some (so_customer ev)) (users s')
           = [user\<lparr>u_subscription_status := ''free''\<rparr>]
       \<and> (\<forall>u \<in> set (users s'). u_id u = u_id user \<longrightarrow> u_subscription_status u = ''free'')
       \<and> integrations s' =
           update_where (\<lambda>i. int_user_id i = u_id user
                            \<and> int_integration_type i \<in> {''google_analytics'', ''gmail''})
             (\<lambda>i. i\<lparr>int_is_active := False\<rparr>) (integrations s)
       \<and> (\<forall>i \<in> set (integrations s).
             int_user_id i = u_id user
               \<and> (int_integration_type i = ''google_analytics'' \<or> int_integration_type i = ''gmail'')
             \<longrightarrow> i\<lparr>int_is_active := False\<rparr> \<in> set (integrations s'))
       \<and> (\<forall>i \<in> set (integrations s').
             int_user_id i = u_id user
               \<and> (int_integration_type i = ''google_analytics'' \<or> int_integration_type i = ''gmail'')
             \<longrightarrow> \<not> int_is_active i)
       \<and> alerts s' = alerts s @
            [\<lparr>al_id = alerts_seq s, al_user_id = u_id user, al_alert_type = ''subscription_canceled'',
              al_title = Suscripcion_Cancelada, al_severity = warning,
              al_data = Canceled_data (so_id ev), al_is_read = False, al_created_at = now\<rparr>]"
proof -
  note unf = after handleSubscriptionDeleted_resolved[OF resolved_user(1)[OF resolved]]
  have subs: "subscriptions s' = subscriptions (cancel_subscription now (so_id ev) s)"
    unfolding unf by simp
  have usrs: "users s' = users (update_user_status ''free'' (u_id user) s)"
    unfolding unf by (simp add: update_user_status_users)
  have ints: "integrations s' = integrations (deactivate_premium_integrations (u_id user) s)"
    unfolding unf by (simp add: deactivate_premium_integrations_def)
  have mem: "user \<in> set (users s)"
    by (rule resolved_user(2)[OF resolved])
  have c0: "subscriptions s' =
           update_where (\<lambda>r. sub_stripe_subscription_id r = so_id ev)
             (\<lambda>r. r\<lparr>sub_status := ''canceled'', sub_updated_at := now\<rparr>) (subscriptions s)"
    unfolding subs by (simp add: cancel_subscription_def)
  have c1: "r\<lparr>sub_status := ''canceled'', sub_updated_at := now\<rparr> \<in> set (subscriptions s')"
    unfolding subs by (rule cancel_subscription_hit[OF row ref])
  have c2: "\<forall>r' \<in> set (subscriptions s').
             sub_stripe_subscription_id r' = so_id ev \<longrightarrow> sub_status r' = ''canceled''"
    unfolding subs using cancel_subscription_rows by blast
  have u0: "users s' =
           update_where (\<lambda>u. u_id u = u_id user) (\<lambda>u. u\<lparr>u_subscription_status := ''free''\<rparr>)
             (users s)"
    unfolding usrs by (simp add: update_user_status_users)
  have c3: "filter (\<lambda>u. u_stripe_customer_id u = Some (so_customer ev)) (users s')
           = [user\<lparr>u_subscription_status := ''free''\<rparr>]"
    unfolding usrs by (rule resolved_after_status[OF resolved])
  have c4: "\<forall>u \<in> set (users s'). u_id u = u_id user \<longrightarrow> u_subscription_status u = ''free''"
    unfolding usrs using update_user_status_sets by blast
  have i0: "integrations s' =
           update_where (\<lambda>i. int_user_id i = u_id user
                            \<and> int_integration_type i \<in> {''google_analytics'', ''gmail''})
             (\<lambda>i. i\<lparr>int_is_active := False\<rparr>) (integrations s)"
    unfolding ints by (simp only: deactivate_premium_integrations_integrations)
  have i1: "\<forall>i \<in> set (integrations s).
             int_user_id i = u_id user
               \<and> (int_integration_type i = ''google_analytics'' \<or> int_integration_type i = ''gmail'')
             \<longrightarrow> i\<lparr>int_is_active := False\<rparr> \<in> set (integrations s')"
    unfolding ints using deactivate_premium_integrations_hit by blast
  have c5: "\<forall>i \<in> set (integrations s').
             int_user_id i = u_id user
               \<and> (int_integration_type i = ''google_analytics'' \<or> int_integration_type i = ''gmail'')
             \<longrightarrow> \<not> int_is_active i"
    unfolding ints using deactivate_premium_integrations_rows by blast
  have "\<exists>u \<in> set (users (deactivate_premium_integrations (u_id user)
               (update_user_status ''free'' (u_id user)
                 (cancel_subscription now (so_id ev) s)))). u_id u = u_id user"
    using mem by auto
  from createUserAlert_alerts[OF this]
  have c6: "alerts s' = alerts s @
            [\<lparr>al_id = alerts_seq s, al_user_id = u_id user, al_alert_type = ''subscription_canceled'',
              al_title = Suscripcion_Cancelada, al_severity = warning,
              al_data = Canceled_data (so_id ev), al_is_read = False, al_created_at = now\<rparr>]"
    unfolding unf by simp
  show ?thesis by (intro conjI c0 c1 c2 u0 c3 c4 i0 i1 c5 c6)
qed

text \<open>User 7 is still the customer \<open>cus_1\<close> after subscribing.\<close>

lemma subscribed_db_resolves:
  "getUserByStripeCustomer ''cus_1'' subscribed_db = Some (user7 (Some ''cus_1''))"
  by (simp add: getUserByStripeCustomer_def subscribed_db_def billing_db_def empty_db_def user7_def)

lemma subscribed_db_resolves_uniquely:
  "filter (\<lambda>u. u_stripe_customer_id u = Some ''cus_1'') (users subscribed_db)
     = [user7 (Some ''cus_1'')]"
  by (simp add: subscribed_db_def billing_db_def empty_db_def user7_def)

text \<open>Deleting the subscription \<open>sub_1\<close> of user 7 at time 300: the row is canceled,
  the user is \<open>free\<close>, and the Gmail integration is still there, switched off.\<close>

theorem C4_subscription_deleted_witness:
  "filter (\<lambda>u. u_stripe_customer_id u = Some (so_customer (sub_event ''cus_1'' ''canceled'')))
       (users subscribed_db) = [user7 (Some ''cus_1'')]
   \<and> sub_row ''trialing'' ''pro'' 100 \<in> set (subscriptions subscribed_db)
   \<and> sub_stripe_subscription_id (sub_row ''trialing'' ''pro'' 100) = so_id (sub_event ''cus_1'' ''canceled'')
   \<and> subscriptions (handleSubscriptionDeleted 300 (sub_event ''cus_1'' ''canceled'') subscribed_db)
       = [(sub_row ''trialing'' ''pro'' 100)\<lparr>sub_status := ''canceled'', sub_updated_at := 300\<rparr>]
   \<and> users (handleSubscriptionDeleted 300 (sub_event ''cus_1'' ''canceled'') subscribed_db)
       = [(user7 (Some ''cus_1''))\<lparr>u_subscription_status := ''free''\<rparr>]
   \<and> integrations subscribed_db = [gmail_integration True]
   \<and> integrations (handleSubscriptionDeleted 300 (sub_event ''cus_1'' ''canceled'') subscribed_db)
       = [gmail_integration False]
   \<and> length (alerts (handleSubscriptionDeleted 300 (sub_event ''cus_1'' ''canceled'') subscribed_db))
       = length (alerts subscribed_db) + 1"
proof -
  let ?ev = "sub_event ''cus_1'' ''canceled''"
  let ?s' = "handleSubscriptionDeleted 300 ?ev subscribed_db"
  have r: "filter (\<lambda>u. u_stripe_customer_id u = Some (so_customer ?ev)) (users subscribed_db)
             = [user7 (Some ''cus_1'')]"
    by (simp only: sub_event_fields subscribed_db_resolves_uniquely)
  have m: "sub_row ''trialing'' ''pro'' 100 \<in> set (subscriptions subscribed_db)"
    by (simp add: subscribed_db_def)
  have k: "sub_stripe_subscription_id (sub_row ''trialing'' ''pro'' 100) = so_id ?ev"
    by (simp add: sub_row_def sub_event_def)
  note t = C4_subscription_deleted [OF r m k refl, of 300]
  have tabs: "subscriptions subscribed_db = [sub_row ''trialing'' ''pro'' 100]"
    "users subscribed_db = [user7 (Some ''cus_1'')]"
    "integrations subscribed_db = [gmail_integration True]"
    by (simp_all add: subscribed_db_def billing_db_def empty_db_def)
  have subs: "subscriptions ?s'
       = [(sub_row ''trialing'' ''pro'' 100)\<lparr>sub_status := ''canceled'', sub_updated_at := 300\<rparr>]"
    unfolding t[THEN conjunct1] tabs by (simp add: sub_row_def sub_event_def)
  have usrs: "users ?s' = [(user7 (Some ''cus_1''))\<lparr>u_subscription_status := ''free''\<rparr>]"
    unfolding t[THEN conjunct2, THEN conjunct2, THEN conjunct2, THEN conjunct1] tabs by simp
  have ints: "integrations ?s' = [gmail_integration False]"
    unfolding t[THEN conjunct2, THEN conjunct2, THEN conjunct2, THEN conjunct2, THEN conjunct2,
                THEN conjunct2, THEN conjunct1] tabs
    by (simp add: gmail_integration_def user7_def)
  have al: "length (alerts ?s') = length (alerts subscribed_db) + 1"
    unfolding t[THEN conjunct2, THEN conjunct2, THEN conjunct2, THEN conjunct2, THEN conjunct2,
                THEN conjunct2, THEN conjunct2, THEN conjunct2, THEN conjunct2] by simp
  show ?thesis by (intro conjI r m k subs usrs tabs(3) ints al)
qed

subsection \<open>Claim C10: an update event without a Subscription row\<close>







subsection \<open>Claim C7: answers of the webhook route\<close>

lemma post_stripe_rejected:
  assumes "verifyStripeWebhook constructEvent e req = Verify_false"
  shows "post_stripe constructEvent e now req s = ((400, Webhook_verification_failed), s)"
  using assms by (simp add: post_stripe_def)

lemma verifyStripeWebhook_fails:
  assumes "STRIPE_WEBHOOK_SECRET e = Some secret" and "secret \<noteq> []"
    and "constructEvent (body req) (stripe_signature req) secret = None"
  shows "verifyStripeWebhook constructEvent e req = Verify_false"
  using assms by (simp add: verifyStripeWebhook_def)

text \<open>
  Claim C7 (as amended). When a webhook verification secret is configured and
  \<open>constructEvent\<close> rejects the inbound event, the route answers with status 400 and
  the body "Webhook verification failed" (neither a success nor a server-error status)
  and the store is unchanged. A verified event of an unrecognized kind, or of a kind
  other than \<open>customer.created\<close> whose customer reference matches no user, is answered
  with a success status, again with the store unchanged.
\<close>

theorem C7_webhook_status_codes:
  "(STRIPE_WEBHOOK_SECRET e = Some secret \<and> secret \<noteq> []
      \<and> constructEvent (body req) (stripe_signature req) secret = None
    \<longrightarrow> post_stripe constructEvent e now req s = ((400, Webhook_verification_failed), s)
        \<and> \<not> is_success (fst (fst (post_stripe constructEvent e now req s)))
        \<and> \<not> is_server_error (fst (fst (post_stripe constructEvent e now req s))))
   \<and> (verifyStripeWebhook constructEvent e req = Verified ev
        \<and> ((\<exists>ty. ev = Other_event ty)
            \<or> (\<exists>c. event_customer ev = Some c \<and> getUserByStripeCustomer c s = None
                   \<and> \<not> is_customer_created ev))
    \<longrightarrow> is_success (fst (fst (post_stripe constructEvent e now req s)))
        \<and> snd (post_stripe constructEvent e now req s) = s)"
proof (intro conjI impI)
  assume a: "STRIPE_WEBHOOK_SECRET e = Some secret \<and> secret \<noteq> []
      \<and> constructEvent (body req) (stripe_signature req) secret = None"
  then have "verifyStripeWebhook constructEvent e req = Verify_false"
    using verifyStripeWebhook_fails[of e secret constructEvent req] by simp
  then have r: "post_stripe constructEvent e now req s = ((400, Webhook_verification_failed), s)"
    by (rule post_stripe_rejected)
  show "post_stripe constructEvent e now req s = ((400, Webhook_verification_failed), s)"
    by (rule r)
  show "\<not> is_success (fst (fst (post_stripe constructEvent e now req s)))"
    by (simp add: r is_success_def)
  show "\<not> is_server_error (fst (fst (post_stripe constructEvent e now req s)))"
    by (simp add: r is_server_error_def)
next
  assume b: "verifyStripeWebhook constructEvent e req = Verified ev
        \<and> ((\<exists>ty. ev = Other_event ty)
            \<or> (\<exists>c. event_customer ev = Some c \<and> getUserByStripeCustomer c s = None
                   \<and> \<not> is_customer_created ev))"
  then have v: "verifyStripeWebhook constructEvent e req = Verified ev" by simp
  from b have "dispatch_event now ev s = s"
    using dispatch_event_unresolved[of ev _ s now] by auto
  then show "is_success (fst (fst (post_stripe constructEvent e now req s)))"
    and "snd (post_stripe constructEvent e now req s) = s"
    by (simp_all add: post_stripe_verified[OF v] is_success_def)
qed

text \<open>A refund event, once with a forged and once with a good signature.\<close>

theorem C7_webhook_status_codes_witness:
  "STRIPE_WEBHOOK_SECRET live_env = Some ''whsec''
   \<and> accept_event (Other_event ''charge.refunded'') (body forged_request)
        (stripe_signature forged_request) ''whsec'' = None
   \<and> post_stripe (accept_event (Other_event ''charge.refunded'')) live_env 100 forged_request billing_db
       = ((400, Webhook_verification_failed), billing_db)
   \<and> verifyStripeWebhook (accept_event (Other_event ''charge.refunded'')) live_env signed_request
       = Verified (Other_event ''charge.refunded'')
   \<and> is_success (fst (fst (post_stripe (accept_event (Other_event ''charge.refunded'')) live_env 100
        signed_request billing_db)))
   \<and> snd (post_stripe (accept_event (Other_event ''charge.refunded'')) live_env 100
        signed_request billing_db) = billing_db"
proof -
  have s: "STRIPE_WEBHOOK_SECRET live_env = Some ''whsec''"
    by (simp add: live_env_def)
  have f: "accept_event (Other_event ''charge.refunded'') (body forged_request)
        (stripe_signature forged_request) ''whsec'' = None"
    by (simp add: accept_event_def forged_request_def)
  have v: "verifyStripeWebhook (accept_event (Other_event ''charge.refunded'')) live_env signed_request
       = Verified (Other_event ''charge.refunded'')"
    by (rule signed_request_verified)
  from C7_webhook_status_codes [where e = live_env and secret = "''whsec''"
         and constructEvent = "accept_event (Other_event ''charge.refunded'')"
         and req = forged_request and now = 100 and s = billing_db] s f
  have one: "post_stripe (accept_event (Other_event ''charge.refunded'')) live_env 100 forged_request billing_db
       = ((400, Webhook_verification_failed), billing_db)"
    by simp
  from C7_webhook_status_codes [where e = live_env
         and constructEvent = "accept_event (Other_event ''charge.refunded'')"
         and req = signed_request and now = 100 and s = billing_db
         and ev = "Other_event ''charge.refunded''"] v
  have two: "is_success (fst (fst (post_stripe (accept_event (Other_event ''charge.refunded'')) live_env 100
        signed_request billing_db)))
     \<and> snd (post_stripe (accept_event (Other_event ''charge.refunded'')) live_env 100
        signed_request billing_db) = billing_db"
    by simp
  from s f one v two show ?thesis by (simp only:)
qed

text \<open>The claim as written expects a server-error status (5xx) for the forged
  delivery; the status sent is 400.\<close>

theorem C7_status_400_counterexample:
  "truthy (STRIPE_WEBHOOK_SECRET live_env)
   \<and> verifyStripeWebhook (accept_event (Customer_subscription_created (sub_event ''cus_1'' ''active'')))
        live_env forged_request = Verify_false
   \<and> fst (fst (post_stripe (accept_event (Customer_subscription_created (sub_event ''cus_1'' ''active'')))
        live_env 100 forged_request billing_db)) = 400
   \<and> \<not> is_server_error 400"
proof (intro conjI)
  show "truthy (STRIPE_WEBHOOK_SECRET live_env)"
    by (simp add: truthy_def live_env_def)
  show "verifyStripeWebhook (accept_event (Customer_subscription_created (sub_event ''cus_1'' ''active'')))
        live_env forged_request = Verify_false"
    by (rule forged_request_rejected)
  show "fst (fst (post_stripe (accept_event (Customer_subscription_created (sub_event ''cus_1'' ''active'')))
        live_env 100 forged_request billing_db)) = 400"
    by (simp add: post_stripe_rejected[OF forged_request_rejected])
  show "\<not> is_server_error 400"
    by (simp add: is_server_error_def)
qed

section \<open>Entitlement read paths: verified properties\<close>

lemma latest_subscription_None:
  "latest_subscription uid s = None \<longleftrightarrow> (\<forall>r \<in> set (subscriptions s). sub_user_id r \<noteq> uid)"
proof -
  let ?rows = "filter (\<lambda>r. sub_user_id r = uid) (subscriptions s)"
  have "latest_subscription uid s = None \<longleftrightarrow> sort_key (\<lambda>r. - sub_created_at r) ?rows = []"
    by (simp add: latest_subscription_def split: list.splits)
  also have "\<dots> \<longleftrightarrow> ?rows = []"
    by (metis length_0_conv length_sort)
  also have "\<dots> \<longleftrightarrow> (\<forall>r \<in> set (subscriptions s). sub_user_id r \<noteq> uid)"
    by (simp add: filter_empty_conv)
  finally show ?thesis .
qed

lemma latest_subscription_Some:
  assumes "latest_subscription uid s = Some r"
  shows "r \<in> set (subscriptions s) \<and> sub_user_id r = uid
       \<and> (\<forall>r' \<in> set (subscriptions s). sub_user_id r' = uid \<longrightarrow> sub_created_at r' \<le> sub_created_at r)"
proof -
  define rows where "rows = filter (\<lambda>r. sub_user_id r = uid) (subscriptions s)"
  define key where "key = (\<lambda>r::subscription_row. - sub_created_at r)"
  from assms obtain rest where first: "sort_key key rows = r # rest"
    by (auto simp: latest_subscription_def rows_def key_def split: list.splits)
  have "set (sort_key key rows) = set rows" by (rule set_sort)
  with first have sets: "set rows = insert r (set rest)" by simp
  have "sorted (map key (sort_key key rows))" by (rule sorted_sort_key)
  with first have le: "\<forall>r' \<in> set rest. key r \<le> key r'" by simp
  have max: "sub_created_at r' \<le> sub_created_at r" if "r' \<in> set rows" for r'
  proof (cases "r' = r")
    case True then show ?thesis by simp
  next
    case False
    with that sets have "r' \<in> set rest" by simp
    with le have "key r \<le> key r'" by blast
    then show ?thesis by (simp add: key_def)
  qed
  from sets have "r \<in> set rows" by simp
  with max show ?thesis by (auto simp: rows_def)
qed


lemma getUserStats_plan:
  "subscription_plan (getUserStats uid s) =
     (case latest_subscription uid s of
        None \<Rightarrow> ''free''
      | Some r \<Rightarrow> if sub_plan_type r = [] then ''free'' else sub_plan_type r)"
  by (simp add: getUserStats_def js_or_def split: option.splits)

lemma overview_plan_type_first_user:
  assumes "filter (\<lambda>u. u_id u = uid) (users s) = u # us"
  shows "overview_plan_type uid s =
           (case filter (\<lambda>r. sub_user_id r = uid \<and> sub_status r = ''active'') (subscriptions s) of
              [] \<Rightarrow> Some ''free''
            | r # _ \<Rightarrow> Some (sub_plan_type r))"
proof -
  from assms have "u \<in> set (filter (\<lambda>u. u_id u = uid) (users s))" by simp
  then have id: "u_id u = uid" by simp
  show ?thesis
    by (simp add: overview_plan_type_def overview_rows_def assms id split: list.splits)
qed

subsection \<open>Claim C8: what the read paths return\<close>

text \<open>
  Claim C8 (as amended). For every user id, the \<open>subscription_plan\<close> of \<open>getUserStats\<close>
  is \<open>free\<close> when the user has no Subscription row; otherwise it is the plan type of a
  most-recently-created Subscription row of that user, whatever the status of that
  row (with \<open>free\<close> standing in for an empty plan type). The plan type read by
  \<open>GET /api/dashboard/overview\<close> for an existing user is \<open>free\<close> when the user has no
  Subscription row with status exactly \<open>active\<close>, and otherwise the plan type of one of
  the user's rows with status \<open>active\<close> (the query does not order them).
\<close>

theorem C8_plan_read_paths:
  "((\<forall>r \<in> set (subscriptions s). sub_user_id r \<noteq> uid)
      \<longrightarrow> subscription_plan (getUserStats uid s) = ''free'')
   \<and> ((\<exists>r \<in> set (subscriptions s). sub_user_id r = uid)
      \<longrightarrow> (\<exists>r \<in> set (subscriptions s). sub_user_id r = uid
             \<and> (\<forall>r' \<in> set (subscriptions s).
                   sub_user_id r' = uid \<longrightarrow> sub_created_at r' \<le> sub_created_at r)
             \<and> subscription_plan (getUserStats uid s)
                 = (if sub_plan_type r = [] then ''free'' else sub_plan_type r)))
   \<and> ((\<exists>u \<in> set (users s). u_id u = uid)
        \<and> (\<forall>r \<in> set (subscriptions s). \<not> (sub_user_id r = uid \<and> sub_status r = ''active''))
      \<longrightarrow> overview_plan_type uid s = Some ''free'')
   \<and> ((\<exists>u \<in> set (users s). u_id u = uid)
        \<and> (\<exists>r \<in> set (subscriptions s). sub_user_id r = uid \<and> sub_status r = ''active'')
      \<longrightarrow> (\<exists>r \<in> set (subscriptions s). sub_user_id r = uid \<and> sub_status r = ''active''
             \<and> overview_plan_type uid s = Some (sub_plan_type r)))"
proof (intro conjI impI)
  assume "\<forall>r \<in> set (subscriptions s). sub_user_id r \<noteq> uid"
  then have "latest_subscription uid s = None" by (simp add: latest_subscription_None)
  then show "subscription_plan (getUserStats uid s) = ''free''" by (simp add: getUserStats_plan)
next
  assume "\<exists>r \<in> set (subscriptions s). sub_user_id r = uid"
  then have "latest_subscription uid s \<noteq> None" by (simp add: latest_subscription_None)
  then obtain r where r: "latest_subscription uid s = Some r" by blast
  from latest_subscription_Some[OF r] r
  show "\<exists>r \<in> set (subscriptions s). sub_user_id r = uid
             \<and> (\<forall>r' \<in> set (subscriptions s).
                   sub_user_id r' = uid \<longrightarrow> sub_created_at r' \<le> sub_created_at r)
             \<and> subscription_plan (getUserStats uid s)
                 = (if sub_plan_type r = [] then ''free'' else sub_plan_type r)"
    by (intro bexI[of _ r]) (simp_all add: getUserStats_plan)
next
  assume a: "(\<exists>u \<in> set (users s). u_id u = uid)
        \<and> (\<forall>r \<in> set (subscriptions s). \<not> (sub_user_id r = uid \<and> sub_status r = ''active''))"
  then have "filter (\<lambda>u. u_id u = uid) (users s) \<noteq> []" by (simp add: filter_empty_conv)
  then obtain u us where u: "filter (\<lambda>u. u_id u = uid) (users s) = u # us"
    by (cases "filter (\<lambda>u. u_id u = uid) (users s)") auto
  from a have "filter (\<lambda>r. sub_user_id r = uid \<and> sub_status r = ''active'') (subscriptions s) = []"
    by (simp add: filter_empty_conv)
  then show "overview_plan_type uid s = Some ''free''"
    by (simp add: overview_plan_type_first_user[OF u])
next
  assume a: "(\<exists>u \<in> set (users s). u_id u = uid)
        \<and> (\<exists>r \<in> set (subscriptions s). sub_user_id r = uid \<and> sub_status r = ''active'')"
  then have "filter (\<lambda>u. u_id u = uid) (users s) \<noteq> []" by (simp add: filter_empty_conv)
  then obtain u us where u: "filter (\<lambda>u. u_id u = uid) (users s) = u # us"
    by (cases "filter (\<lambda>u. u_id u = uid) (users s)") auto
  let ?act = "filter (\<lambda>r. sub_user_id r = uid \<and> sub_status r = ''active'') (subscriptions s)"
  from a have "?act \<noteq> []" by (simp add: filter_empty_conv)
  then obtain r rs where r: "?act = r # rs" by (cases ?act) auto
  then have "r \<in> set ?act" by simp
  then have "r \<in> set (subscriptions s)" "sub_user_id r = uid" "sub_status r = ''active''"
    by simp_all
  moreover have "overview_plan_type uid s = Some (sub_plan_type r)"
    by (simp add: overview_plan_type_first_user[OF u] r)
  ultimately show "\<exists>r \<in> set (subscriptions s). sub_user_id r = uid \<and> sub_status r = ''active''
             \<and> overview_plan_type uid s = Some (sub_plan_type r)"
    by blast
qed

text \<open>User 7 on a trial of plan \<open>pro\<close>: \<open>getUserStats\<close> reports \<open>pro\<close>, the overview
  reports \<open>free\<close>; the unknown user 8 gets \<open>free\<close>.\<close>

theorem C8_plan_read_paths_witness:
  "sub_row ''trialing'' ''pro'' 100 \<in> set (subscriptions subscribed_db)
   \<and> sub_user_id (sub_row ''trialing'' ''pro'' 100) = 7
   \<and> user7 (Some ''cus_1'') \<in> set (users subscribed_db) \<and> u_id (user7 (Some ''cus_1'')) = 7
   \<and> subscription_plan (getUserStats 7 subscribed_db) = ''pro''
   \<and> overview_plan_type 7 subscribed_db = Some ''free''
   \<and> subscription_plan (getUserStats 8 subscribed_db) = ''free''"
proof -
  have subs: "subscriptions subscribed_db = [sub_row ''trialing'' ''pro'' 100]"
    by (simp add: subscribed_db_def)
  have usrs: "users subscribed_db = [user7 (Some ''cus_1'')]"
    by (simp add: subscribed_db_def billing_db_def)
  have row: "sub_user_id (sub_row ''trialing'' ''pro'' 100) = 7"
    "sub_plan_type (sub_row ''trialing'' ''pro'' 100) = ''pro''"
    "sub_status (sub_row ''trialing'' ''pro'' 100) = ''trialing''"
    by (simp_all add: sub_row_def)
  have usr: "u_id (user7 (Some ''cus_1'')) = 7" by (simp add: user7_def)
  from C8_plan_read_paths [of subscribed_db 7]
  have "subscription_plan (getUserStats 7 subscribed_db) = ''pro''"
    and "overview_plan_type 7 subscribed_db = Some ''free''"
    by (simp_all add: subs usrs row usr)
  moreover from C8_plan_read_paths [of subscribed_db 8]
  have "subscription_plan (getUserStats 8 subscribed_db) = ''free''"
    by (simp add: subs row)
  ultimately show ?thesis by (simp add: subs usrs row usr)
qed

text \<open>
  The claim as written restricts the choice to rows with an active-like status and
  promises \<open>free\<close> when there is none. The only row of user 7 is canceled, yet
  \<open>getUserStats\<close> reports its plan \<open>pro\<close>.
\<close>

theorem C8_canceled_plan_counterexample:
  "subscriptions canceled_db = [sub_row ''canceled'' ''pro'' 100]
   \<and> sub_user_id (sub_row ''canceled'' ''pro'' 100) = 7
   \<and> sub_status (sub_row ''canceled'' ''pro'' 100) = ''canceled''
   \<and> subscription_plan (getUserStats 7 canceled_db) = ''pro''
   \<and> subscription_plan (getUserStats 7 canceled_db) \<noteq> ''free''"
  by (simp add: getUserStats_def latest_subscription_def js_or_def canceled_db_def sub_row_def)

section \<open>The subscription-status column across all operations\<close>

subsection \<open>Statements that leave the column alone\<close>

lemma status_column_cong: "users s' = users s \<Longrightarrow> status_column s' = status_column s"
  by (simp add: status_column_def)

lemma status_column_update_where:
  assumes "\<And>u. u_id (assign u) = u_id u"
    and "\<And>u. u_subscription_status (assign u) = u_subscription_status u"
  shows "status_column (s\<lparr>users := update_where cond assign (users s)\<rparr>) = status_column s"
proof -
  have "map (\<lambda>u. (u_id u, u_subscription_status u)) (update_where cond assign (users s)) =
        map (\<lambda>u. (u_id u, u_subscription_status u)) (users s)"
    by (rule update_where_key) (simp add: assms)
  then show ?thesis by (simp add: status_column_def)
qed

lemma requireAuth_users: "users (snd (requireAuth jwt_verify now authorization s)) = users s"
  by (simp add: requireAuth_def delete_session_def split: option.splits list.splits)

lemma get_me_users: "users (snd (get_me jwt_verify now authorization s)) = users s"
  by (simp add: get_me_def delete_session_def split: option.splits list.splits)

lemma with_auth_status:
  assumes "\<And>userId s'. status_column (handler userId s') = status_column s'"
  shows "status_column (with_auth x now authorization handler s) = status_column s"
proof (cases "requireAuth (jwt_verify_at (x_jwt_decode x) now) now authorization s")
  case (Pair res s')
  then have "users s' = users s"
    using requireAuth_users[of "jwt_verify_at (x_jwt_decode x) now" now authorization s] by simp
  then have eq: "status_column s' = status_column s" by (rule status_column_cong)
  show ?thesis
  proof (cases res)
    case (Inl e)
    with Pair eq show ?thesis by (simp add: with_auth_def)
  next
    case (Inr uid)
    with Pair eq assms[of uid s'] show ?thesis by (simp add: with_auth_def)
  qed
qed

lemma insert_session_users: "users (insert_session now uid token s) = users s"
  by (simp add: insert_session_def)

subsection \<open>The routes one by one\<close>

lemma post_login_status: "status_column (post_login x now email password s) = status_column s"
  by (rule status_column_cong)
     (simp add: post_login_def insert_session_users split: option.splits list.splits)

lemma post_logout_status: "status_column (post_logout authorization s) = status_column s"
  by (rule status_column_cong)
     (simp add: post_logout_def delete_session_def split: option.splits)

lemma post_change_password_status:
  "status_column (post_change_password x now authorization currentPassword newPassword s)
     = status_column s"
  by (simp add: post_change_password_def status_column_update_where
        split: option.splits list.splits)

lemma put_profile_status:
  "status_column (put_profile x now name company_name userId s) = status_column s"
  by (simp add: put_profile_def status_column_update_where split: option.splits)

lemma put_alert_read_status: "status_column (put_alert_read alertId userId s) = status_column s"
  by (rule status_column_cong) (simp add: put_alert_read_def split: option.splits)

lemma put_alerts_read_all_status: "status_column (put_alerts_read_all userId s) = status_column s"
  by (rule status_column_cong) (simp add: put_alerts_read_all_def)

lemma delete_alert_status: "status_column (delete_alert alertId userId s) = status_column s"
  by (rule status_column_cong) (simp add: delete_alert_def split: option.splits)

lemma post_integration_stripe_status:
  "status_column (post_integration_stripe now userId s) = status_column s"
  by (rule status_column_cong)
     (simp add: post_integration_stripe_def split: list.splits)

lemma post_integration_oauth_status:
  "status_column (post_integration_oauth userId s) = status_column s"
  by (simp add: post_integration_oauth_def)

lemma put_integration_status:
  "status_column (put_integration now integrationId integration_name is_active
      has_additional_data userId s) = status_column s"
  by (rule status_column_cong) (simp add: put_integration_def split: option.splits)

lemma delete_integration_status:
  "status_column (delete_integration integrationId userId s) = status_column s"
  by (rule status_column_cong) (simp add: delete_integration_def split: option.splits)

lemma insert_sync_data_users: "users (insert_sync_data now userId integration s) = users s"
  by (simp add: insert_sync_data_def)

lemma post_integration_sync_status:
  "status_column (post_integration_sync now integrationId userId s) = status_column s"
  by (rule status_column_cong)
     (simp add: post_integration_sync_def insert_sync_data_users split: option.splits list.splits)

lemma fold_insert_sync_data_users:
  "users (fold (insert_sync_data now userId) rows s) = users s"
  by (induction rows arbitrary: s) (simp_all add: insert_sync_data_users)

lemma post_dashboard_sync_status:
  "status_column (post_dashboard_sync now userId s) = status_column s"
  by (rule status_column_cong) (simp add: post_dashboard_sync_def fold_insert_sync_data_users)

lemma put_subscription_update_status:
  "status_column (put_subscription_update x now plan_type userId s) = status_column s"
  by (rule status_column_cong)
     (simp add: put_subscription_update_def split: option.splits list.splits)

lemma delete_subscription_cancel_status:
  "status_column (delete_subscription_cancel x now False userId s) = status_column s"
  by (rule status_column_cong)
     (simp add: delete_subscription_cancel_def split: option.splits list.splits)

lemma post_subscription_reactivate_status:
  "status_column (post_subscription_reactivate x now userId s) = status_column s"
  by (rule status_column_cong)
     (simp add: post_subscription_reactivate_def split: option.splits list.splits)

lemma post_manual_sync_status: "status_column (post_manual_sync x now user_id s) = status_column s"
  by (rule status_column_cong)
     (simp add: post_manual_sync_def split: option.splits form_value.splits)

subsection \<open>The webhook, event by event\<close>

lemma handlePaymentSucceeded_users: "users (handlePaymentSucceeded now invoice s) = users s"
  by (simp add: handlePaymentSucceeded_def split: option.splits)

lemma handlePaymentFailed_users: "users (handlePaymentFailed now invoice s) = users s"
  by (simp add: handlePaymentFailed_def split: option.splits)

lemma handleTrialWillEnd_users: "users (handleTrialWillEnd now subscription s) = users s"
  by (simp add: handleTrialWillEnd_def split: option.splits)

lemma handleCustomerCreated_status:
  "status_column (handleCustomerCreated customer s) = status_column s"
  by (simp add: handleCustomerCreated_def status_column_update_where
        split: option.splits list.splits)

lemma dispatch_event_status:
  assumes "\<not> is_subscription_event event"
  shows "status_column (dispatch_event now event s) = status_column s"
proof (cases event)
  case (Customer_subscription_created obj)
  with assms show ?thesis by simp
next
  case (Customer_subscription_updated obj)
  with assms show ?thesis by simp
next
  case (Customer_subscription_deleted obj)
  with assms show ?thesis by simp
next
  case (Invoice_payment_succeeded obj)
  then show ?thesis by (simp add: status_column_cong[OF handlePaymentSucceeded_users])
next
  case (Invoice_payment_failed obj)
  then show ?thesis by (simp add: status_column_cong[OF handlePaymentFailed_users])
next
  case (Customer_subscription_trial_will_end obj)
  then show ?thesis by (simp add: status_column_cong[OF handleTrialWillEnd_users])
next
  case (Customer_created obj)
  then show ?thesis by (simp add: handleCustomerCreated_status)
next
  case (Other_event ty)
  then show ?thesis by simp
qed

lemma post_stripe_status:
  assumes "\<not> writes_subscription_status x (Webhook_stripe req)"
  shows "status_column (snd (post_stripe (x_constructEvent x) (x_env x) now req s)) = status_column s"
proof (cases "verifyStripeWebhook (x_constructEvent x) (x_env x) req")
  case Verify_false
  then show ?thesis by (simp add: post_stripe_def)
next
  case Dev_true
  then show ?thesis by (simp add: post_stripe_def)
next
  case (Verified event)
  show ?thesis
  proof (cases "truthy (STRIPE_SECRET_KEY (x_env x))")
    case True
    with assms Verified have "\<not> is_subscription_event event" by simp
    from dispatch_event_status[OF this, of now s] Verified True show ?thesis
      by (simp add: post_stripe_def)
  next
    case False
    with Verified show ?thesis by (simp add: post_stripe_def)
  qed
qed

lemma cleanupExpiredSessions_status:
  "status_column (cleanupExpiredSessions now s) = status_column s"
  by (rule status_column_cong) (simp add: cleanupExpiredSessions_def)

lemma delete_user_status:
  "status_column (delete_user userId s) = filter (\<lambda>p. fst p \<noteq> userId) (status_column s)"
  by (simp add: delete_user_def status_column_def filter_map comp_def)

lemma delete_account_status:
  "status_column (delete_account x password userId s) = status_column s
   \<or> status_column (delete_account x password userId s)
       = filter (\<lambda>p. fst p \<noteq> userId) (status_column s)"
  by (simp add: delete_account_def delete_user_status split: option.splits list.splits)

subsection \<open>Claim C9: who writes the column\<close>

lemma step_keeps_status_column:
  assumes "\<not> writes_subscription_status x operation"
  shows "status_column (step x now operation s) = status_column s
       \<or> (\<exists>authorization password userId.
             operation = Delete_account authorization password
             \<and> status_column (step x now operation s)
                 = filter (\<lambda>p. fst p \<noteq> userId) (status_column s))"
proof (cases operation)
  case (Register email password name company_name)
  with assms show ?thesis by simp
next
  case (Login email password)
  then show ?thesis by (simp add: post_login_status)
next
  case (Logout authorization)
  then show ?thesis by (simp add: post_logout_status)
next
  case (Me authorization)
  then show ?thesis by (simp add: status_column_cong[OF get_me_users])
next
  case (Change_password authorization currentPassword newPassword)
  then show ?thesis by (simp add: post_change_password_status)
next
  case (Reading route authorization)
  then show ?thesis by (simp add: with_auth_status)
next
  case (Open_route route)
  then show ?thesis by simp
next
  case (Put_profile authorization name company_name)
  then show ?thesis by (simp add: with_auth_status put_profile_status)
next
  case (Put_alert_read authorization alertId)
  then show ?thesis by (simp add: with_auth_status put_alert_read_status)
next
  case (Put_alerts_read_all authorization)
  then show ?thesis by (simp add: with_auth_status put_alerts_read_all_status)
next
  case (Delete_alert authorization alertId)
  then show ?thesis by (simp add: with_auth_status delete_alert_status)
next
  case (Delete_account authorization password)
  show ?thesis
  proof (cases "requireAuth (jwt_verify_at (x_jwt_decode x) now) now authorization s")
    case (Pair res s')
    then have "users s' = users s"
      using requireAuth_users[of "jwt_verify_at (x_jwt_decode x) now" now authorization s] by simp
    then have eq: "status_column s' = status_column s" by (rule status_column_cong)
    show ?thesis
    proof (cases res)
      case (Inl e)
      with Pair eq Delete_account show ?thesis by (simp add: with_auth_def)
    next
      case (Inr uid)
      with Pair Delete_account have st: "step x now operation s = delete_account x password uid s'"
        by (simp add: with_auth_def)
      from delete_account_status[of x password uid s'] eq
      have "status_column (delete_account x password uid s') = status_column s
          \<or> status_column (delete_account x password uid s')
              = filter (\<lambda>p. fst p \<noteq> uid) (status_column s)"
        by simp
      with st Delete_account show ?thesis by auto
    qed
  qed
next
  case (Post_integration_stripe authorization)
  then show ?thesis by (simp add: with_auth_status post_integration_stripe_status)
next
  case (Post_integration_google_analytics authorization)
  then show ?thesis by (simp add: with_auth_status post_integration_oauth_status)
next
  case (Post_integration_gmail authorization)
  then show ?thesis by (simp add: with_auth_status post_integration_oauth_status)
next
  case (Put_integration authorization integrationId integration_name is_active has_additional_data)
  then show ?thesis by (simp add: with_auth_status put_integration_status)
next
  case (Delete_integration authorization integrationId)
  then show ?thesis by (simp add: with_auth_status delete_integration_status)
next
  case (Post_integration_sync authorization integrationId)
  then show ?thesis by (simp add: with_auth_status post_integration_sync_status)
next
  case (Post_dashboard_sync authorization)
  then show ?thesis by (simp add: with_auth_status post_dashboard_sync_status)
next
  case (Post_subscription_create authorization plan_type)
  with assms show ?thesis by simp
next
  case (Put_subscription_update authorization plan_type)
  then show ?thesis by (simp add: with_auth_status put_subscription_update_status)
next
  case (Delete_subscription_cancel authorization immediate)
  with assms have "\<not> immediate" by simp
  with Delete_subscription_cancel show ?thesis
    by (simp add: with_auth_status delete_subscription_cancel_status)
next
  case (Post_subscription_reactivate authorization)
  then show ?thesis by (simp add: with_auth_status post_subscription_reactivate_status)
next
  case (Webhook_stripe req)
  with assms post_stripe_status[of x req now s] show ?thesis by simp
next
  case (Webhook_manual_sync user_id)
  then show ?thesis by (simp add: post_manual_sync_status)
next
  case Cleanup_expired_sessions
  then show ?thesis by (simp add: cleanupExpiredSessions_status)
next
  case Create_tables
  then show ?thesis by simp
qed

lemma post_register_status:
  "status_column (post_register x now email password name company_name s) = status_column s
   \<or> status_column (post_register x now email password name company_name s)
       = status_column s @ [(users_seq s, ''free'')]"
  by (simp add: post_register_def status_column_def insert_session_users
        split: option.splits)

text \<open>
  Claim C9 (as amended). The operations that write \<open>users.subscription_status\<close> are:
  a delivery to the Stripe webhook that is verified as one of the three subscription
  events (created, updated, deleted) while the Stripe secret key is configured;
  \<open>POST /api/subscriptions/create\<close>; \<open>DELETE /api/subscriptions/cancel\<close> with
  \<open>immediate\<close> set; and registration. For every other operation of the system, at any
  time, with any behaviour of the libraries and from any store, the column afterwards
  is the column before: the same ids with the same statuses in the same order. This
  holds for every other route and also for every other delivery to the webhook: a
  payment, trial or \<open>customer.created\<close> event, an event of an unknown kind, a delivery
  that fails verification, and any delivery in development mode. The one exception is
  the deletion of an account, which removes the rows of one user id and alters no
  other. Registration itself alters no existing row: it leaves the column as it is or
  appends the new id with the status \<open>free\<close>.
\<close>

theorem C9_status_column_writers:
  "(\<not> writes_subscription_status x operation \<longrightarrow>
      status_column (step x now operation s) = status_column s
      \<or> (\<exists>authorization password userId.
            operation = Delete_account authorization password
            \<and> status_column (step x now operation s)
                = filter (\<lambda>p. fst p \<noteq> userId) (status_column s)))
   \<and> ((\<forall>event. verifyStripeWebhook (x_constructEvent x) (x_env x) req = Verified event
                 \<longrightarrow> \<not> is_subscription_event event)
        \<longrightarrow> status_column (step x now (Webhook_stripe req) s) = status_column s)
   \<and> (operation = Register email password name company_name \<longrightarrow>
        status_column (step x now operation s) = status_column s
        \<or> status_column (step x now operation s) = status_column s @ [(users_seq s, ''free'')])"
proof (intro conjI impI)
  assume "\<not> writes_subscription_status x operation"
  then show "status_column (step x now operation s) = status_column s
      \<or> (\<exists>authorization password userId.
            operation = Delete_account authorization password
            \<and> status_column (step x now operation s)
                = filter (\<lambda>p. fst p \<noteq> userId) (status_column s))"
    by (rule step_keeps_status_column)
next
  assume a: "\<forall>event. verifyStripeWebhook (x_constructEvent x) (x_env x) req = Verified event
                 \<longrightarrow> \<not> is_subscription_event event"
  have "\<not> writes_subscription_status x (Webhook_stripe req)"
  proof (cases "verifyStripeWebhook (x_constructEvent x) (x_env x) req")
    case (Verified event)
    with a show ?thesis by simp
  qed simp_all
  from post_stripe_status[OF this, of now s]
  show "status_column (step x now (Webhook_stripe req) s) = status_column s" by simp
next
  assume "operation = Register email password name company_name"
  then show "status_column (step x now operation s) = status_column s
        \<or> status_column (step x now operation s) = status_column s @ [(users_seq s, ''free'')]"
    using post_register_status[of x now email password name company_name s] by simp
qed

text \<open>User 7, logged in at time 0, passes the guard at time 100.\<close>

lemma logged_in_guard:
  "requireAuth (jwt_verify_at (x_jwt_decode demo_ext) 100) 100 (Some ''Bearer tok'') logged_in_db
     = (Inr 7, logged_in_db)"
  by (simp add: requireAuth_def bearer_tok demo_ext_def jwt_verify_at_def tok_decode_def
        select_session_def logged_in_db_def issued_session_def)

lemma logged_in_status: "status_column logged_in_db = [(7, ''free'')]"
  by (simp add: status_column_def logged_in_db_def billing_db_def user7_def)

text \<open>A profile update by user 7 leaves the column as it was, and so does the
  delivery of a succeeded payment for user 7, although it appends an alert.\<close>

theorem C9_status_column_writers_witness:
  "\<not> writes_subscription_status demo_ext (Put_profile (Some ''Bearer tok'') (Some ''B'') None)
   \<and> status_column (step demo_ext 100 (Put_profile (Some ''Bearer tok'') (Some ''B'') None) logged_in_db)
       = [(7, ''free'')]
   \<and> \<not> writes_subscription_status payment_ext (Webhook_stripe signed_request)
   \<and> length (alerts (step payment_ext 100 (Webhook_stripe signed_request) logged_in_db)) = 1
   \<and> status_column (step payment_ext 100 (Webhook_stripe signed_request) logged_in_db)
       = [(7, ''free'')]"
proof -
  have w1: "\<not> writes_subscription_status demo_ext (Put_profile (Some ''Bearer tok'') (Some ''B'') None)"
    by simp
  have v: "verifyStripeWebhook (x_constructEvent payment_ext) (x_env payment_ext) signed_request
        = Verified (Invoice_payment_succeeded
            \<lparr>inv_id = ''in_1'', inv_customer = ''cus_1'', inv_amount_paid = 2900,
             inv_amount_due = 2900, inv_currency = ''usd''\<rparr>)"
    by (simp add: payment_ext_def demo_ext_def signed_request_verified)
  then have w2: "\<not> writes_subscription_status payment_ext (Webhook_stripe signed_request)"
    by simp
  from C9_status_column_writers [where operation = "Put_profile (Some ''Bearer tok'') (Some ''B'') None"
          and x = demo_ext and now = 100 and s = logged_in_db] w1
  have c1: "status_column (step demo_ext 100 (Put_profile (Some ''Bearer tok'') (Some ''B'') None)
              logged_in_db) = [(7, ''free'')]"
    by (simp add: logged_in_status)
  from C9_status_column_writers [where operation = "Webhook_stripe signed_request"
          and x = payment_ext and now = 100 and s = logged_in_db] w2
  have c2: "status_column (step payment_ext 100 (Webhook_stripe signed_request) logged_in_db)
              = [(7, ''free'')]"
    by (simp add: logged_in_status)
  have ext: "x_constructEvent payment_ext = accept_event (Invoice_payment_succeeded
            \<lparr>inv_id = ''in_1'', inv_customer = ''cus_1'', inv_amount_paid = 2900,
             inv_amount_due = 2900, inv_currency = ''usd''\<rparr>)"
    "x_env payment_ext = live_env"
    by (simp_all add: payment_ext_def demo_ext_def)
  have key: "truthy (STRIPE_SECRET_KEY live_env)"
    by (simp add: live_env_def truthy_def)
  have "step payment_ext 100 (Webhook_stripe signed_request) logged_in_db
          = handlePaymentSucceeded 100
              \<lparr>inv_id = ''in_1'', inv_customer = ''cus_1'', inv_amount_paid = 2900,
               inv_amount_due = 2900, inv_currency = ''usd''\<rparr> logged_in_db"
    by (simp add: post_stripe_def ext signed_request_verified key)
  then have al: "length (alerts (step payment_ext 100 (Webhook_stripe signed_request) logged_in_db)) = 1"
    by (simp add: handlePaymentSucceeded_def getUserByStripeCustomer_def logged_in_db_def
          billing_db_def empty_db_def user7_def createUserAlert_def)
  show ?thesis by (intro conjI w1 c1 w2 al c2)
qed

text \<open>
  The claim as written allows no writer besides the webhook handlers. The logged-in
  user 7, on the free plan, calls \<open>POST /api/subscriptions/create\<close> for the plan
  \<open>pro\<close>; Stripe answers with a trialing subscription and the route writes
  \<open>trialing\<close> into the user's \<open>subscription_status\<close>.
\<close>

theorem C9_subscription_create_counterexample:
  "status_column logged_in_db = [(7, ''free'')]
   \<and> status_column (step demo_ext 100
        (Post_subscription_create (Some ''Bearer tok'') (Some ''pro'')) logged_in_db)
       = [(7, ''trialing'')]"
proof (intro conjI)
  show "status_column logged_in_db = [(7, ''free'')]" by (rule logged_in_status)
  have "step demo_ext 100 (Post_subscription_create (Some ''Bearer tok'') (Some ''pro'')) logged_in_db
        = post_subscription_create demo_ext 100 (Some ''pro'') 7 logged_in_db"
    by (simp add: with_auth_def logged_in_guard)
  moreover have "status_column (post_subscription_create demo_ext 100 (Some ''pro'') 7 logged_in_db)
        = [(7, ''trialing'')]"
    by (simp add: post_subscription_create_def plan_lookup_truthy_def own_plan_def truthy_def
          js_or_def date_param_def js_date_def
          demo_ext_def live_env_def logged_in_db_def billing_db_def empty_db_def user7_def
          sub_event_def update_user_status_def status_column_def)
  ultimately show "status_column (step demo_ext 100
        (Post_subscription_create (Some ''Bearer tok'') (Some ''pro'')) logged_in_db)
       = [(7, ''trialing'')]"
    by simp
qed

section \<open>The session store across all operations\<close>

text \<open>
  The properties of the guard above are stated for stores that respect the UNIQUE
  constraint on session tokens and hold sessions as the program issues them. This
  section shows that these are the stores the program produces: the empty store is
  one, and every operation, at any time and with any behaviour of the other
  libraries, leads from such a store to such a store, provided \<open>jwt.verify\<close> decodes
  what \<open>jwt.sign\<close> has signed.
\<close>

subsection \<open>Rows removed, or one row appended\<close>

lemma filter_keeps_sessions:
  assumes "sessions s' = filter p (sessions s)"
    and "unique_session_tokens s" and "sessions_issued decode s"
  shows "unique_session_tokens s' \<and> sessions_issued decode s'"
  using assms by (simp add: unique_session_tokens_def sessions_issued_def distinct_map_filter)

lemma same_sessions_filter:
  "sessions s' = sessions s \<Longrightarrow> \<exists>p. sessions s' = filter p (sessions s)"
  by (rule exI[of _ "\<lambda>_. True"]) simp

lemma filter_filter_sessions:
  assumes "\<exists>p. sessions s'' = filter p (sessions s')" and "\<exists>p. sessions s' = filter p (sessions s)"
  shows "\<exists>p. sessions s'' = filter p (sessions s)"
proof -
  from assms obtain p q where "sessions s'' = filter p (sessions s')"
      "sessions s' = filter q (sessions s)" by blast
  then have "sessions s'' = filter (\<lambda>r. q r \<and> p r) (sessions s)" by simp
  then show ?thesis by blast
qed

lemma whole_seconds: "(now div 1000 + 30 * 24 * 60 * 60) * 1000 \<le> now + 30 * 24 * 60 * 60 * (1000::int)"
proof -
  have "now = 1000 * (now div 1000) + now mod 1000" by simp
  moreover have "0 \<le> now mod 1000" by simp
  ultimately have "1000 * (now div 1000) \<le> now" by linarith
  then show ?thesis by simp
qed

lemma insert_session_keeps_sessions:
  assumes "\<And>payload. sign payload \<noteq> [] \<and> decode (sign payload) = Some payload"
    and "unique_session_tokens s" and "sessions_issued decode s"
  shows "unique_session_tokens (insert_session now uid (generateToken sign now uid) s)
       \<and> sessions_issued decode (insert_session now uid (generateToken sign now uid) s)"
proof (cases "\<exists>r \<in> set (sessions s). sess_session_token r = generateToken sign now uid")
  case True
  with assms(2,3) show ?thesis by (simp add: insert_session_def)
next
  case False
  let ?row = "\<lparr>sess_user_id = uid, sess_session_token = generateToken sign now uid,
               sess_expires_at = now + 30 * 24 * 60 * 60 * 1000, sess_created_at = now\<rparr>"
  from False have new: "sessions (insert_session now uid (generateToken sign now uid) s)
                        = sessions s @ [?row]"
    by (simp add: insert_session_def)
  from False have fresh: "generateToken sign now uid \<notin> sess_session_token ` set (sessions s)"
    by (auto simp: image_iff)
  have u: "unique_session_tokens (insert_session now uid (generateToken sign now uid) s)"
    using assms(2) fresh by (simp add: unique_session_tokens_def new)
  from assms(1)[of "\<lparr>jp_userId = uid, jp_iat = now div 1000,
                        jp_exp = Some (now div 1000 + 30 * 24 * 60 * 60)\<rparr>"]
  have tok: "generateToken sign now uid \<noteq> []"
    and dec: "decode (generateToken sign now uid)
                = Some \<lparr>jp_userId = uid, jp_iat = now div 1000,
                         jp_exp = Some (now div 1000 + 30 * 24 * 60 * 60)\<rparr>"
    by (simp_all add: generateToken_def)
  have i: "sessions_issued decode (insert_session now uid (generateToken sign now uid) s)"
    using assms(3) tok whole_seconds[of now]
    by (simp add: sessions_issued_def new dec)
  from u i show ?thesis by simp
qed

subsection \<open>The guard and the routes behind it\<close>

lemma requireAuth_sessions:
  "\<exists>p. sessions (snd (requireAuth jwt_verify now authorization s)) = filter p (sessions s)"
proof (cases "sessions (snd (requireAuth jwt_verify now authorization s)) = sessions s")
  case True
  then show ?thesis by (rule same_sessions_filter)
next
  case False
  then obtain token where
    "sessions (snd (requireAuth jwt_verify now authorization s)) = sessions (delete_session token s)"
    by (auto simp: requireAuth_def split: option.splits list.splits if_splits)
  then show ?thesis by (auto simp: delete_session_def)
qed

lemma get_me_sessions:
  "\<exists>p. sessions (snd (get_me jwt_verify now authorization s)) = filter p (sessions s)"
proof -
  have "snd (get_me jwt_verify now authorization s) = snd (requireAuth jwt_verify now authorization s)"
    by (cases "requireAuth jwt_verify now authorization s")
       (auto simp: get_me_via_guard split: sum.splits auth_error.splits list.splits)
  then show ?thesis by (simp add: requireAuth_sessions)
qed

lemma with_auth_sessions:
  assumes "\<And>userId s'. \<exists>p. sessions (handler userId s') = filter p (sessions s')"
  shows "\<exists>p. sessions (with_auth x now authorization handler s) = filter p (sessions s)"
proof (cases "requireAuth (jwt_verify_at (x_jwt_decode x) now) now authorization s")
  case (Pair res s')
  from requireAuth_sessions[of "jwt_verify_at (x_jwt_decode x) now" now authorization s] Pair
  have g: "\<exists>p. sessions s' = filter p (sessions s)" by simp
  show ?thesis
  proof (cases res)
    case (Inl e)
    with Pair g show ?thesis by (simp add: with_auth_def)
  next
    case (Inr uid)
    with Pair have "with_auth x now authorization handler s = handler uid s'"
      by (simp add: with_auth_def)
    with filter_filter_sessions[OF assms[of uid s'] g] show ?thesis by simp
  qed
qed

lemma with_auth_same_sessions:
  assumes "\<And>userId s'. sessions (handler userId s') = sessions s'"
  shows "\<exists>p. sessions (with_auth x now authorization handler s) = filter p (sessions s)"
  by (rule with_auth_sessions) (rule same_sessions_filter, rule assms)

lemma put_profile_sessions: "sessions (put_profile x now name company_name userId s) = sessions s"
  by (simp add: put_profile_def split: option.splits)

lemma put_alert_read_sessions: "sessions (put_alert_read alertId userId s) = sessions s"
  by (simp add: put_alert_read_def split: option.splits)

lemma put_alerts_read_all_sessions: "sessions (put_alerts_read_all userId s) = sessions s"
  by (simp add: put_alerts_read_all_def)

lemma delete_alert_sessions: "sessions (delete_alert alertId userId s) = sessions s"
  by (simp add: delete_alert_def split: option.splits)

lemma delete_account_sessions:
  "\<exists>p. sessions (delete_account x password userId s) = filter p (sessions s)"
proof (cases "delete_account x password userId s = s")
  case True
  then show ?thesis by (simp add: same_sessions_filter)
next
  case False
  then have "delete_account x password userId s = delete_user userId s"
    by (auto simp: delete_account_def split: option.splits list.splits if_splits)
  then show ?thesis by (auto simp: delete_user_def)
qed

lemma post_integration_stripe_sessions:
  "sessions (post_integration_stripe now userId s) = sessions s"
  by (simp add: post_integration_stripe_def split: list.splits)

lemma post_integration_oauth_sessions: "sessions (post_integration_oauth userId s) = sessions s"
  by (simp add: post_integration_oauth_def)

lemma put_integration_sessions:
  "sessions (put_integration now integrationId integration_name is_active
      has_additional_data userId s) = sessions s"
  by (simp add: put_integration_def split: option.splits)

lemma delete_integration_sessions: "sessions (delete_integration integrationId userId s) = sessions s"
  by (simp add: delete_integration_def split: option.splits)

lemma insert_sync_data_sessions: "sessions (insert_sync_data now userId integration s) = sessions s"
  by (simp add: insert_sync_data_def)

lemma post_integration_sync_sessions:
  "sessions (post_integration_sync now integrationId userId s) = sessions s"
  by (simp add: post_integration_sync_def insert_sync_data_sessions split: option.splits list.splits)

lemma fold_insert_sync_data_sessions:
  "sessions (fold (insert_sync_data now userId) rows s) = sessions s"
  by (induction rows arbitrary: s) (simp_all add: insert_sync_data_sessions)

lemma post_dashboard_sync_sessions: "sessions (post_dashboard_sync now userId s) = sessions s"
  by (simp add: post_dashboard_sync_def fold_insert_sync_data_sessions)

lemma post_subscription_create_sessions:
  "sessions (post_subscription_create x now plan_type userId s) = sessions s"
  by (simp add: post_subscription_create_def split: option.splits list.splits prod.splits)

lemma put_subscription_update_sessions:
  "sessions (put_subscription_update x now plan_type userId s) = sessions s"
  by (simp add: put_subscription_update_def split: option.splits list.splits)

lemma delete_subscription_cancel_sessions:
  "sessions (delete_subscription_cancel x now immediate userId s) = sessions s"
  by (simp add: delete_subscription_cancel_def split: option.splits list.splits)

lemma post_subscription_reactivate_sessions:
  "sessions (post_subscription_reactivate x now userId s) = sessions s"
  by (simp add: post_subscription_reactivate_def split: option.splits list.splits)

subsection \<open>The routes without the guard\<close>

lemma post_logout_sessions: "\<exists>p. sessions (post_logout authorization s) = filter p (sessions s)"
proof (cases "post_logout authorization s = s")
  case True
  then show ?thesis by (simp add: same_sessions_filter)
next
  case False
  then obtain token where "post_logout authorization s = delete_session token s"
    by (auto simp: post_logout_def split: option.splits if_splits)
  then show ?thesis by (auto simp: delete_session_def)
qed

lemma post_change_password_sessions:
  "sessions (post_change_password x now authorization currentPassword newPassword s) = sessions s"
  by (simp add: post_change_password_def split: option.splits list.splits)

lemma post_manual_sync_sessions: "sessions (post_manual_sync x now user_id s) = sessions s"
  by (simp add: post_manual_sync_def split: option.splits form_value.splits)

lemma dispatch_event_sessions: "sessions (dispatch_event now event s) = sessions s"
  by (cases event)
     (simp_all add: handleSubscriptionCreated_def handleSubscriptionUpdated_def
        handleSubscriptionDeleted_def handlePaymentSucceeded_def handlePaymentFailed_def
        handleTrialWillEnd_def handleCustomerCreated_def
        split: option.splits list.splits prod.splits)

lemma post_stripe_sessions:
  "sessions (snd (post_stripe constructEvent e now req s)) = sessions s"
  by (cases "verifyStripeWebhook constructEvent e req")
     (simp_all add: post_stripe_def dispatch_event_sessions)

lemma cleanupExpiredSessions_sessions:
  "\<exists>p. sessions (cleanupExpiredSessions now s) = filter p (sessions s)"
  by (auto simp: cleanupExpiredSessions_def)

subsection \<open>Every operation\<close>

lemma step_removes_sessions:
  assumes "\<forall>email password name company_name. operation \<noteq> Register email password name company_name"
    and "\<forall>email password. operation \<noteq> Login email password"
  shows "\<exists>p. sessions (step x now operation s) = filter p (sessions s)"
proof (cases operation)
  case (Register email password name company_name)
  with assms show ?thesis by simp
next
  case (Login email password)
  with assms show ?thesis by simp
next
  case (Logout authorization)
  then show ?thesis by (simp add: post_logout_sessions)
next
  case (Me authorization)
  then show ?thesis by (simp add: get_me_sessions)
next
  case (Change_password authorization currentPassword newPassword)
  then show ?thesis by (simp add: same_sessions_filter post_change_password_sessions)
next
  case (Reading route authorization)
  then show ?thesis by (simp add: with_auth_same_sessions)
next
  case (Open_route route)
  then show ?thesis by (simp add: same_sessions_filter)
next
  case (Put_profile authorization name company_name)
  then show ?thesis by (simp add: with_auth_same_sessions put_profile_sessions)
next
  case (Put_alert_read authorization alertId)
  then show ?thesis by (simp add: with_auth_same_sessions put_alert_read_sessions)
next
  case (Put_alerts_read_all authorization)
  then show ?thesis by (simp add: with_auth_same_sessions put_alerts_read_all_sessions)
next
  case (Delete_alert authorization alertId)
  then show ?thesis by (simp add: with_auth_same_sessions delete_alert_sessions)
next
  case (Delete_account authorization password)
  then show ?thesis by (simp add: with_auth_sessions delete_account_sessions)
next
  case (Post_integration_stripe authorization)
  then show ?thesis by (simp add: with_auth_same_sessions post_integration_stripe_sessions)
next
  case (Post_integration_google_analytics authorization)
  then show ?thesis by (simp add: with_auth_same_sessions post_integration_oauth_sessions)
next
  case (Post_integration_gmail authorization)
  then show ?thesis by (simp add: with_auth_same_sessions post_integration_oauth_sessions)
next
  case (Put_integration authorization integrationId integration_name is_active has_additional_data)
  then show ?thesis by (simp add: with_auth_same_sessions put_integration_sessions)
next
  case (Delete_integration authorization integrationId)
  then show ?thesis by (simp add: with_auth_same_sessions delete_integration_sessions)
next
  case (Post_integration_sync authorization integrationId)
  then show ?thesis by (simp add: with_auth_same_sessions post_integration_sync_sessions)
next
  case (Post_dashboard_sync authorization)
  then show ?thesis by (simp add: with_auth_same_sessions post_dashboard_sync_sessions)
next
  case (Post_subscription_create authorization plan_type)
  then show ?thesis by (simp add: with_auth_same_sessions post_subscription_create_sessions)
next
  case (Put_subscription_update authorization plan_type)
  then show ?thesis by (simp add: with_auth_same_sessions put_subscription_update_sessions)
next
  case (Delete_subscription_cancel authorization immediate)
  then show ?thesis by (simp add: with_auth_same_sessions delete_subscription_cancel_sessions)
next
  case (Post_subscription_reactivate authorization)
  then show ?thesis by (simp add: with_auth_same_sessions post_subscription_reactivate_sessions)
next
  case (Webhook_stripe req)
  then show ?thesis by (simp add: same_sessions_filter post_stripe_sessions)
next
  case (Webhook_manual_sync user_id)
  then show ?thesis by (simp add: same_sessions_filter post_manual_sync_sessions)
next
  case Cleanup_expired_sessions
  then show ?thesis by (simp add: cleanupExpiredSessions_sessions)
next
  case Create_tables
  then show ?thesis by (simp add: same_sessions_filter)
qed

lemma insert_session_keeps_sessions_of:
  assumes "\<And>payload. sign payload \<noteq> [] \<and> decode (sign payload) = Some payload"
    and "unique_session_tokens s" and "sessions_issued decode s"
    and "sessions s1 = sessions s"
  shows "unique_session_tokens (insert_session now uid (generateToken sign now uid) s1)"
    and "sessions_issued decode (insert_session now uid (generateToken sign now uid) s1)"
proof -
  from assms(2,3,4) have "unique_session_tokens s1" "sessions_issued decode s1"
    by (simp_all add: unique_session_tokens_def sessions_issued_def)
  from insert_session_keeps_sessions[of sign decode s1 now uid, OF assms(1) this]
  show "unique_session_tokens (insert_session now uid (generateToken sign now uid) s1)"
    and "sessions_issued decode (insert_session now uid (generateToken sign now uid) s1)"
    by simp_all
qed

lemma post_login_keeps_sessions:
  assumes "\<And>payload. x_jwt_sign x payload \<noteq> [] \<and> x_jwt_decode x (x_jwt_sign x payload) = Some payload"
    and "unique_session_tokens s" and "sessions_issued (x_jwt_decode x) s"
  shows "unique_session_tokens (post_login x now email password s)
       \<and> sessions_issued (x_jwt_decode x) (post_login x now email password s)"
  using assms(2,3)
    insert_session_keeps_sessions_of[of "x_jwt_sign x" "x_jwt_decode x" s s, OF assms refl]
  by (simp add: post_login_def split: option.splits list.splits)

lemma post_register_keeps_sessions:
  assumes "\<And>payload. x_jwt_sign x payload \<noteq> [] \<and> x_jwt_decode x (x_jwt_sign x payload) = Some payload"
    and "unique_session_tokens s" and "sessions_issued (x_jwt_decode x) s"
  shows "unique_session_tokens (post_register x now email password name company_name s)
       \<and> sessions_issued (x_jwt_decode x) (post_register x now email password name company_name s)"
proof -
  have k: "unique_session_tokens (insert_session now uid (generateToken (x_jwt_sign x) now uid)
             (s\<lparr>users := us, users_seq := n\<rparr>))"
    "sessions_issued (x_jwt_decode x) (insert_session now uid (generateToken (x_jwt_sign x) now uid)
             (s\<lparr>users := us, users_seq := n\<rparr>))" for uid us n
    by (rule insert_session_keeps_sessions_of[of "x_jwt_sign x" "x_jwt_decode x" s, OF assms]; simp)+
  show ?thesis using assms(2,3)
    by (simp add: post_register_def k split: option.splits)
qed

text \<open>Every operation keeps the session store as the guard's properties assume it.\<close>

lemma step_keeps_sessions:
  assumes "\<And>payload. x_jwt_sign x payload \<noteq> [] \<and> x_jwt_decode x (x_jwt_sign x payload) = Some payload"
    and "unique_session_tokens s" and "sessions_issued (x_jwt_decode x) s"
  shows "unique_session_tokens (step x now operation s)
       \<and> sessions_issued (x_jwt_decode x) (step x now operation s)"
proof (cases "(\<exists>email password name company_name. operation = Register email password name company_name)
              \<or> (\<exists>email password. operation = Login email password)")
  case True
  then show ?thesis
  proof
    assume "\<exists>email password name company_name. operation = Register email password name company_name"
    then obtain email password name company_name where
      "operation = Register email password name company_name" by blast
    with post_register_keeps_sessions[OF assms, of now email password name company_name]
    show ?thesis by simp
  next
    assume "\<exists>email password. operation = Login email password"
    then obtain email password where "operation = Login email password" by blast
    with post_login_keeps_sessions[OF assms, of now email password] show ?thesis by simp
  qed
next
  case False
  then have "\<exists>p. sessions (step x now operation s) = filter p (sessions s)"
    by (intro step_removes_sessions) auto
  then obtain p where "sessions (step x now operation s) = filter p (sessions s)" ..
  from filter_keeps_sessions[OF this assms(2,3)] show ?thesis .
qed

lemma empty_db_sessions: "unique_session_tokens empty_db \<and> sessions_issued decode empty_db"
  by (simp add: unique_session_tokens_def sessions_issued_def empty_db_def)

text \<open>Hence every store the program reaches from the empty one, by any sequence of
  operations at any times, is such a store.\<close>

lemma reachable_sessions:
  assumes "\<And>payload. x_jwt_sign x payload \<noteq> [] \<and> x_jwt_decode x (x_jwt_sign x payload) = Some payload"
  shows "unique_session_tokens (fold (\<lambda>(now, operation). step x now operation) trace empty_db)
       \<and> sessions_issued (x_jwt_decode x)
           (fold (\<lambda>(now, operation). step x now operation) trace empty_db)"
proof -
  have "unique_session_tokens s \<and> sessions_issued (x_jwt_decode x) s \<Longrightarrow>
        unique_session_tokens (fold (\<lambda>(now, operation). step x now operation) trace s)
        \<and> sessions_issued (x_jwt_decode x)
            (fold (\<lambda>(now, operation). step x now operation) trace s)" for s
  proof (induction trace arbitrary: s)
    case Nil
    then show ?case by simp
  next
    case (Cons a trace)
    obtain now operation where a: "a = (now, operation)" by (cases a)
    from Cons.prems step_keeps_sessions[OF assms, of s now operation]
    have "unique_session_tokens (step x now operation s)
          \<and> sessions_issued (x_jwt_decode x) (step x now operation s)" by simp
    from Cons.IH[OF this] a show ?case by simp
  qed
  from this[OF empty_db_sessions] show ?thesis .
qed

end
